theory Spec2Isabelle
  imports Main "HOL-Library.Multiset"
begin

section \<open>Values that cross the HTTP boundary\<close>

text \<open>
  The backend (\<^verbatim>\<open>backend/src/index.ts\<close>) is a set of route handlers over four tables.
  A request body is whatever \<^verbatim>\<open>c.req.json()\<close> parses, so the handlers see arbitrary JSON
  values and test them with JavaScript truthiness. Numbers are modelled as integers and
  strings as ASCII character lists.
\<close>

datatype json =
    JNull
  | JBool bool
  | JNum int
  | JStr string
  | JArr "json list"
  | JObj "(string \<times> json) list"

text \<open>
  A destructured field is \<open>None\<close> when it is \<^verbatim>\<open>undefined\<close>. \<open>truthy\<close> is the test that
  \<^verbatim>\<open>!v\<close>, \<^verbatim>\<open>v ? a : b\<close> and \<^verbatim>\<open>v && w\<close> perform.
\<close>

fun truthy :: "json option \<Rightarrow> bool" where
  "truthy None = False"
| "truthy (Some JNull) = False"
| "truthy (Some (JBool b)) = b"
| "truthy (Some (JNum n)) = (n \<noteq> 0)"
| "truthy (Some (JStr s)) = (s \<noteq> [])"
| "truthy (Some (JArr xs)) = True"
| "truthy (Some (JObj kvs)) = True"

text \<open>
  \<^verbatim>\<open>const { a, b } = await c.req.json()\<close>: an unparsable body (\<open>None\<close>) and the body
  \<^verbatim>\<open>null\<close> throw; an object yields its properties; any other value yields \<^verbatim>\<open>undefined\<close>
  for every field the handlers ask for.
\<close>

fun destructure :: "json option \<Rightarrow> (string \<Rightarrow> json option) option" where
  "destructure None = None"
| "destructure (Some JNull) = None"
| "destructure (Some (JObj kvs)) = Some (map_of kvs)"
| "destructure (Some v) = Some (\<lambda>k. None)"

text \<open>
  \<^verbatim>\<open>v.trim()\<close> and \<^verbatim>\<open>v.toLowerCase()\<close> exist on strings only; on any other value
  the call is a \<^verbatim>\<open>TypeError\<close> (\<open>None\<close> here).
\<close>

fun str_of :: "json option \<Rightarrow> string option" where
  "str_of (Some (JStr s)) = Some s"
| "str_of v = None"

definition toLowerCase_char :: "char \<Rightarrow> char" where
  "toLowerCase_char c =
     (case map_of (zip ''ABCDEFGHIJKLMNOPQRSTUVWXYZ'' ''abcdefghijklmnopqrstuvwxyz'') c of
        None \<Rightarrow> c
      | Some d \<Rightarrow> d)"

definition toLowerCase :: "string \<Rightarrow> string" where
  "toLowerCase s = map toLowerCase_char s"

definition is_space :: "char \<Rightarrow> bool" where
  "is_space c = (c \<in> set [CHR '' '', CHR 0x09, CHR 0x0A, CHR 0x0B, CHR 0x0C, CHR 0x0D])"

definition trim :: "string \<Rightarrow> string" where
  "trim s = rev (dropWhile is_space (rev (dropWhile is_space s)))"

text \<open>The normal form of an e-mail address, \<^verbatim>\<open>email.toLowerCase().trim()\<close>.\<close>

definition normalize :: "string \<Rightarrow> string" where
  "normalize e = trim (toLowerCase e)"

text \<open>\<^verbatim>\<open>Number.prototype.toString()\<close> on an integer: its decimal numeral.\<close>

definition digit_char :: "nat \<Rightarrow> char" where
  "digit_char d = ''0123456789'' ! d"

fun digits :: "nat \<Rightarrow> string" where
  "digits n = (if n < 10 then [digit_char n] else digits (n div 10) @ [digit_char (n mod 10)])"

declare digits.simps [simp del]

definition toString :: "int \<Rightarrow> string" where
  "toString i = (if i < 0 then CHR ''-'' # digits (nat (- i)) else digits (nat i))"

text \<open>
  \<^verbatim>\<open>crypto.randomInt(min, max)\<close> draws an integer \<open>r\<close> with \<open>min \<le> r < max\<close>; the draw is
  an input of the model and \<open>randomInt_range\<close> is the library's contract on it.
\<close>

definition randomInt_range :: "int \<Rightarrow> int \<Rightarrow> int \<Rightarrow> bool" where
  "randomInt_range lo hi r = (lo \<le> r \<and> r < hi)"

definition generateOTP :: "int \<Rightarrow> string" where
  "generateOTP r = toString r"

definition is_digit :: "char \<Rightarrow> bool" where
  "is_digit c = (c \<in> set ''0123456789'')"


section \<open>The tables\<close>

text \<open>
  Columns follow the two migrations. The \<^verbatim>\<open>created_at\<close> and \<^verbatim>\<open>updated_at\<close> columns of
  \<^verbatim>\<open>users\<close>, \<^verbatim>\<open>otps\<close> and \<^verbatim>\<open>sessions\<close> are never read by a handler and are left out;
  times are milliseconds since the epoch.
\<close>

datatype OtpType = SIGNUP | SIGNIN | PASSWORD_RESET

record User =
  user_id :: string
  user_email :: string
  user_name :: string
  user_dateOfBirth :: int
  user_verified :: bool
  user_isActive :: bool

record signup_data =
  sd_name :: string
  sd_email :: string
  sd_dateOfBirth :: json

record Otp =
  otp_id :: string
  otp_code :: string
  otp_email :: string
  otp_type :: OtpType
  otp_expiresAt :: int
  otp_verified :: bool
  otp_attempts :: int
  otp_userId :: "string option"
  otp_signupData :: "signup_data option"

record Session =
  session_id :: string
  session_userId :: string
  session_token :: string
  session_expiresAt :: int
  session_isActive :: bool
  session_userAgent :: "string option"
  session_ipAddress :: "string option"

record Note =
  note_id :: string
  note_title :: string
  note_content :: string
  note_userId :: string
  note_createdAt :: int
  note_updatedAt :: int

text \<open>
  Every call on the ORM client is recorded in \<open>orm_log\<close>, a ghost field next to the
  tables; the calls made on the transaction client \<^verbatim>\<open>tx\<close> are recorded inside one
  \<open>Transaction\<close> entry.
\<close>

datatype orm_call =
    UserFindUnique | UserCreate
  | OtpDeleteMany | OtpCreate | OtpFindFirst | OtpUpdate
  | SessionFindFirst | SessionCreate | SessionUpdateMany
  | NoteFindMany | NoteCreate | NoteFindFirst | NoteUpdate | NoteDelete
  | Transaction "orm_call list"

record db =
  db_users :: "User list"
  db_otps :: "Otp list"
  db_sessions :: "Session list"
  db_notes :: "Note list"
  orm_log :: "orm_call list"


text \<open>
  A failing ORM call throws an error that carries a code; the handlers' \<^verbatim>\<open>catch\<close> blocks
  turn it into an answer. A \<^verbatim>\<open>TypeError\<close> (a string method called on a value that is not
  a string) and a refused e-mail are caught by the same blocks and are modelled where
  they arise.
\<close>

datatype exn = PrismaError string

text \<open>
  What a request does not determine: clock readings (the handler's first and second,
  and the database's own for timestamps), the random draw, the ids the ORM generates,
  the JWT library, the mail provider's answer, \<^verbatim>\<open>new Date(v)\<close> on a stored JSON value
  (\<open>None\<close>: an invalid date, which the ORM refuses), the ORM's reading of a non-string
  value given as a filter on a string column (\<open>None\<close>: a validation error), and the three
  request headers that end up in a session row.
\<close>

record ext =
  now1 :: int
  now2 :: int
  db_now :: int
  random_draw :: int
  new_id :: string
  new_session_id :: string
  jwt_sign :: "string \<Rightarrow> string"
  jwt_verify :: "string \<Rightarrow> (string \<times> string) option"
  email_ok :: bool
  parse_date :: "json \<Rightarrow> int option"
  string_filter :: "json \<Rightarrow> (string \<Rightarrow> bool) option"
  hdr_user_agent :: "string option"
  hdr_cf_connecting_ip :: "string option"
  hdr_x_forwarded_for :: "string option"


section \<open>The ORM calls\<close>

definition logged :: "orm_call \<Rightarrow> db \<Rightarrow> db" where
  "logged c s = s\<lparr>orm_log := orm_log s @ [c]\<rparr>"

definition user_findUnique :: "string \<Rightarrow> db \<Rightarrow> User option \<times> db" where
  "user_findUnique e s = (find (\<lambda>u. user_email u = e) (db_users s), logged UserFindUnique s)"

text \<open>\<^verbatim>\<open>users_pkey\<close> and \<^verbatim>\<open>users_email_key\<close>: a duplicate is error P2002.\<close>

definition user_create :: "User \<Rightarrow> db \<Rightarrow> (exn + User) \<times> db" where
  "user_create u s =
     (if user_id u \<in> set (map user_id (db_users s)) \<or> user_email u \<in> set (map user_email (db_users s))
      then (Inl (PrismaError ''P2002''), logged UserCreate s)
      else (Inr u, logged UserCreate (s\<lparr>db_users := db_users s @ [u]\<rparr>)))"

definition otp_deleteMany :: "(Otp \<Rightarrow> bool) \<Rightarrow> db \<Rightarrow> db" where
  "otp_deleteMany P s = logged OtpDeleteMany (s\<lparr>db_otps := filter (\<lambda>r. \<not> P r) (db_otps s)\<rparr>)"

text \<open>
  The foreign keys of \<^verbatim>\<open>otps\<close>, \<^verbatim>\<open>sessions\<close> and \<^verbatim>\<open>notes\<close> to \<^verbatim>\<open>users\<close>: a row that
  names a user who does not exist is error P2003.
\<close>

definition user_exists :: "string \<Rightarrow> db \<Rightarrow> bool" where
  "user_exists uid s = (uid \<in> set (map user_id (db_users s)))"

definition otp_create :: "Otp \<Rightarrow> db \<Rightarrow> (exn + Otp) \<times> db" where
  "otp_create r s =
     (if otp_id r \<in> set (map otp_id (db_otps s))
      then (Inl (PrismaError ''P2002''), logged OtpCreate s)
      else if (case otp_userId r of None \<Rightarrow> False | Some uid \<Rightarrow> \<not> user_exists uid s)
      then (Inl (PrismaError ''P2003''), logged OtpCreate s)
      else (Inr r, logged OtpCreate (s\<lparr>db_otps := db_otps s @ [r]\<rparr>)))"

definition otp_findFirst :: "(Otp \<Rightarrow> bool) \<Rightarrow> db \<Rightarrow> Otp option \<times> db" where
  "otp_findFirst P s = (find P (db_otps s), logged OtpFindFirst s)"

text \<open>
  \<^verbatim>\<open>update({ where: { id } })\<close>: no row with that id is error P2025; the foreign key
  is checked when the update changes it.
\<close>

definition otp_update :: "string \<Rightarrow> (Otp \<Rightarrow> Otp) \<Rightarrow> db \<Rightarrow> (exn + unit) \<times> db" where
  "otp_update i f s =
     (case find (\<lambda>r. otp_id r = i) (db_otps s) of
        None \<Rightarrow> (Inl (PrismaError ''P2025''), logged OtpUpdate s)
      | Some r \<Rightarrow>
          if otp_userId (f r) \<noteq> otp_userId r
             \<and> (case otp_userId (f r) of None \<Rightarrow> False | Some uid \<Rightarrow> \<not> user_exists uid s)
          then (Inl (PrismaError ''P2003''), logged OtpUpdate s)
          else (Inr (), logged OtpUpdate
                  (s\<lparr>db_otps := map (\<lambda>r. if otp_id r = i then f r else r) (db_otps s)\<rparr>)))"

definition session_findFirst :: "(Session \<Rightarrow> bool) \<Rightarrow> db \<Rightarrow> Session option \<times> db" where
  "session_findFirst P s = (find P (db_sessions s), logged SessionFindFirst s)"

text \<open>\<^verbatim>\<open>sessions_pkey\<close> and \<^verbatim>\<open>sessions_token_key\<close> are unique.\<close>

definition session_create :: "Session \<Rightarrow> db \<Rightarrow> (exn + Session) \<times> db" where
  "session_create r s =
     (if session_id r \<in> set (map session_id (db_sessions s))
         \<or> session_token r \<in> set (map session_token (db_sessions s))
      then (Inl (PrismaError ''P2002''), logged SessionCreate s)
      else if \<not> user_exists (session_userId r) s
      then (Inl (PrismaError ''P2003''), logged SessionCreate s)
      else (Inr r, logged SessionCreate (s\<lparr>db_sessions := db_sessions s @ [r]\<rparr>)))"

definition session_updateMany :: "(Session \<Rightarrow> bool) \<Rightarrow> (Session \<Rightarrow> Session) \<Rightarrow> db \<Rightarrow> db" where
  "session_updateMany P f s =
     logged SessionUpdateMany (s\<lparr>db_sessions := map (\<lambda>r. if P r then f r else r) (db_sessions s)\<rparr>)"

text \<open>\<^verbatim>\<open>findMany({ where: { userId }, orderBy: { createdAt: 'desc' } })\<close>.\<close>

definition note_findMany :: "string \<Rightarrow> db \<Rightarrow> Note list \<times> db" where
  "note_findMany uid s =
     (sort_key (\<lambda>n. - note_createdAt n) (filter (\<lambda>n. note_userId n = uid) (db_notes s)),
      logged NoteFindMany s)"

definition note_create :: "Note \<Rightarrow> db \<Rightarrow> (exn + Note) \<times> db" where
  "note_create n s =
     (if note_id n \<in> set (map note_id (db_notes s))
      then (Inl (PrismaError ''P2002''), logged NoteCreate s)
      else if \<not> user_exists (note_userId n) s
      then (Inl (PrismaError ''P2003''), logged NoteCreate s)
      else (Inr n, logged NoteCreate (s\<lparr>db_notes := db_notes s @ [n]\<rparr>)))"

definition note_findFirst :: "(Note \<Rightarrow> bool) \<Rightarrow> db \<Rightarrow> Note option \<times> db" where
  "note_findFirst P s = (find P (db_notes s), logged NoteFindFirst s)"

definition note_update :: "string \<Rightarrow> (Note \<Rightarrow> Note) \<Rightarrow> db \<Rightarrow> (exn + Note) \<times> db" where
  "note_update i f s =
     (case find (\<lambda>n. note_id n = i) (db_notes s) of
        None \<Rightarrow> (Inl (PrismaError ''P2025''), logged NoteUpdate s)
      | Some n \<Rightarrow>
          (Inr (f n), logged NoteUpdate
             (s\<lparr>db_notes := map (\<lambda>n. if note_id n = i then f n else n) (db_notes s)\<rparr>)))"

definition note_delete :: "string \<Rightarrow> db \<Rightarrow> (exn + unit) \<times> db" where
  "note_delete i s =
     (case find (\<lambda>n. note_id n = i) (db_notes s) of
        None \<Rightarrow> (Inl (PrismaError ''P2025''), logged NoteDelete s)
      | Some n \<Rightarrow>
          (Inr (), logged NoteDelete (s\<lparr>db_notes := filter (\<lambda>n. note_id n \<noteq> i) (db_notes s)\<rparr>)))"

text \<open>
  \<^verbatim>\<open>prisma.$transaction(async (tx) => ...)\<close>: the body runs on the transaction client;
  when it throws, nothing it wrote is kept and the exception is passed on, otherwise all
  of it is committed.
\<close>

definition transaction :: "(db \<Rightarrow> (exn + 'a) \<times> db) \<Rightarrow> db \<Rightarrow> (exn + 'a) \<times> db" where
  "transaction body s =
     (case body (s\<lparr>orm_log := []\<rparr>) of
        (Inl e, t) \<Rightarrow> (Inl e, logged (Transaction (orm_log t)) s)
      | (Inr v, t) \<Rightarrow> (Inr v, t\<lparr>orm_log := orm_log s @ [Transaction (orm_log t)]\<rparr>))"


section \<open>Responses\<close>

text \<open>
  \<^verbatim>\<open>c.json(body)\<close> answers with status 200 and \<^verbatim>\<open>c.json({ error }, status)\<close> with the
  status given. The successful bodies are: a message with the normalised e-mail
  (\<open>OtpSent\<close>), a message with the user's public fields and a token (\<open>Authenticated\<close>), a
  bare message, the list of notes, and a message with one note.
\<close>

record user_view =
  view_id :: string
  view_name :: string
  view_email :: string
  view_dateOfBirth :: int

datatype response =
    JsonError string nat
  | OtpSent string string
  | Authenticated string user_view string
  | Message string
  | NotesList "Note list"
  | NoteSaved string Note
  | Health int

fun status :: "response \<Rightarrow> nat" where
  "status (JsonError msg st) = st"
| "status r = 200"

fun token_of :: "response \<Rightarrow> string option" where
  "token_of (Authenticated msg v t) = Some t"
| "token_of r = None"

definition view_of :: "User \<Rightarrow> user_view" where
  "view_of u = \<lparr>view_id = user_id u, view_name = user_name u, view_email = user_email u,
                view_dateOfBirth = user_dateOfBirth u\<rparr>"


section \<open>Tokens and the session guard\<close>

definition generateToken :: "ext \<Rightarrow> string \<Rightarrow> string" where
  "generateToken x userId = jwt_sign x userId"

definition verifyToken :: "ext \<Rightarrow> string \<Rightarrow> string option" where
  "verifyToken x token =
     (case jwt_verify x token of
        None \<Rightarrow> None
      | Some (userId, ty) \<Rightarrow> if ty = ''session'' then Some userId else None)"

text \<open>
  \<open>authMiddleware\<close> either answers itself (\<open>Inl\<close>) or hands the decoded user id to the
  route (\<open>Inr\<close>). The argument is the \<^verbatim>\<open>Authorization\<close> header, if any.
\<close>

definition authMiddleware :: "ext \<Rightarrow> string option \<Rightarrow> db \<Rightarrow> (response + string) \<times> db" where
  "authMiddleware x authHeader s =
     (case authHeader of
        None \<Rightarrow> (Inl (JsonError ''Unauthorized'' 401), s)
      | Some h \<Rightarrow>
          if h = [] \<or> take 7 h \<noteq> ''Bearer '' then (Inl (JsonError ''Unauthorized'' 401), s)
          else
            let token = drop 7 h in
            (case verifyToken x token of
               None \<Rightarrow> (Inl (JsonError ''Invalid token'' 401), s)
             | Some userId \<Rightarrow>
                 (case session_findFirst
                         (\<lambda>r. session_token r = token \<and> session_isActive r
                               \<and> session_expiresAt r > now1 x) s of
                    (None, s1) \<Rightarrow> (Inl (JsonError ''Session expired'' 401), s1)
                  | (Some r, s1) \<Rightarrow> (Inr userId, s1))))"

text \<open>\<^verbatim>\<open>h || null\<close> and \<^verbatim>\<open>a || b || 'unknown'\<close> on header values.\<close>

definition nonempty :: "string option \<Rightarrow> string option" where
  "nonempty h = (case h of None \<Rightarrow> None | Some v \<Rightarrow> if v = [] then None else Some v)"

definition ipAddress :: "ext \<Rightarrow> string" where
  "ipAddress x =
     (case nonempty (hdr_cf_connecting_ip x) of
        Some v \<Rightarrow> v
      | None \<Rightarrow> (case nonempty (hdr_x_forwarded_for x) of Some v \<Rightarrow> v | None \<Rightarrow> ''unknown''))"

definition new_session :: "ext \<Rightarrow> string \<Rightarrow> string \<Rightarrow> int \<Rightarrow> Session" where
  "new_session x userId token expiresAt =
     \<lparr>session_id = new_session_id x, session_userId = userId, session_token = token,
      session_expiresAt = expiresAt, session_isActive = True,
      session_userAgent = nonempty (hdr_user_agent x),
      session_ipAddress = Some (ipAddress x)\<rparr>"

definition cleanupExpiredOtps :: "int \<Rightarrow> db \<Rightarrow> db" where
  "cleanupExpiredOtps now s = otp_deleteMany (\<lambda>r. otp_expiresAt r < now) s"


section \<open>Sign-up\<close>

definition signup :: "ext \<Rightarrow> json option \<Rightarrow> db \<Rightarrow> response \<times> db" where
  "signup x body s =
     (case destructure body of
        None \<Rightarrow> (JsonError ''Invalid request data'' 400, s)
      | Some f \<Rightarrow>
          if \<not> truthy (f ''name'') \<or> \<not> truthy (f ''email'') \<or> \<not> truthy (f ''dateOfBirth'')
          then (JsonError ''Name, email, and date of birth are required'' 400, s)
          else
            let s1 = cleanupExpiredOtps (now1 x) s in
            (case str_of (f ''email'') of
               None \<Rightarrow> (JsonError ''Signup failed. Please try again.'' 500, s1)
             | Some email \<Rightarrow>
                 (case user_findUnique (normalize email) s1 of
                    (Some existingUser, s2) \<Rightarrow> (JsonError ''User already exists'' 409, s2)
                  | (None, s2) \<Rightarrow>
                      let s3 = otp_deleteMany
                                 (\<lambda>r. otp_email r = normalize email \<and> otp_type r = SIGNUP) s2;
                          code = generateOTP (random_draw x);
                          expiresAt = now2 x + 10 * 60 * 1000
                      in
                      (case str_of (f ''name'') of
                         None \<Rightarrow> (JsonError ''Signup failed. Please try again.'' 500, s3)
                       | Some name \<Rightarrow>
                           (case otp_create
                                   \<lparr>otp_id = new_id x, otp_code = code,
                                    otp_email = normalize email, otp_type = SIGNUP,
                                    otp_expiresAt = expiresAt, otp_verified = False,
                                    otp_attempts = 0, otp_userId = None,
                                    otp_signupData =
                                      Some \<lparr>sd_name = trim name, sd_email = normalize email,
                                            sd_dateOfBirth =
                                              (case f ''dateOfBirth'' of
                                                 Some v \<Rightarrow> v
                                               | None \<Rightarrow> JNull)\<rparr>\<rparr> s3 of
                              (Inl e, s4) \<Rightarrow>
                                if e = PrismaError ''P2002''
                                then (JsonError ''Email already exists'' 409, s4)
                                else (JsonError ''Signup failed. Please try again.'' 500, s4)
                            | (Inr r, s4) \<Rightarrow>
                                if email_ok x
                                then (OtpSent ''OTP sent to your email'' (normalize email), s4)
                                else (JsonError ''Signup failed. Please try again.'' 500, s4))))))"

text \<open>
  The \<^verbatim>\<open>where\<close> clause of both verification routes: the normalised e-mail, the trimmed
  code, the route's type, not yet verified, not yet expired.
\<close>

definition otp_where :: "string \<Rightarrow> string \<Rightarrow> OtpType \<Rightarrow> int \<Rightarrow> Otp \<Rightarrow> bool" where
  "otp_where email otp ty now r =
     (otp_email r = normalize email \<and> otp_code r = trim otp \<and> otp_type r = ty
      \<and> \<not> otp_verified r \<and> otp_expiresAt r > now)"

text \<open>The body of the transaction in \<^verbatim>\<open>/api/signup/verify\<close>, run on the client \<^verbatim>\<open>tx\<close>.\<close>

definition signup_verify_tx :: "ext \<Rightarrow> signup_data \<Rightarrow> string \<Rightarrow> db \<Rightarrow> (exn + User) \<times> db" where
  "signup_verify_tx x signupData otpId t =
     (case parse_date x (sd_dateOfBirth signupData) of
        None \<Rightarrow> (Inl (PrismaError ''validation''), logged UserCreate t)
      | Some dateOfBirth \<Rightarrow>
          (case user_create
                  \<lparr>user_id = new_id x, user_email = sd_email signupData,
                   user_name = sd_name signupData, user_dateOfBirth = dateOfBirth,
                   user_verified = True, user_isActive = True\<rparr> t of
             (Inl e, t1) \<Rightarrow> (Inl e, t1)
           | (Inr user, t1) \<Rightarrow>
               (case otp_update otpId
                       (\<lambda>r. r\<lparr>otp_verified := True, otp_userId := Some (user_id user)\<rparr>) t1 of
                  (Inl e, t2) \<Rightarrow> (Inl e, t2)
                | (Inr u, t2) \<Rightarrow> (Inr user, t2))))"

definition signup_verify :: "ext \<Rightarrow> json option \<Rightarrow> db \<Rightarrow> response \<times> db" where
  "signup_verify x body s =
     (case destructure body of
        None \<Rightarrow> (JsonError ''Invalid request data'' 400, s)
      | Some f \<Rightarrow>
          if \<not> truthy (f ''email'') \<or> \<not> truthy (f ''otp'')
          then (JsonError ''Email and OTP are required'' 400, s)
          else
            (case (str_of (f ''email''), str_of (f ''otp'')) of
               (Some email, Some otp) \<Rightarrow>
                 (case otp_findFirst (otp_where email otp SIGNUP (now1 x)) s of
                    (None, s1) \<Rightarrow> (JsonError ''Invalid or expired OTP'' 400, s1)
                  | (Some otpRecord, s1) \<Rightarrow>
                      if otp_attempts otpRecord \<ge> 5
                      then (JsonError ''Too many attempts. Please request a new OTP.'' 400, s1)
                      else
                        (case otp_signupData otpRecord of
                           None \<Rightarrow> (JsonError ''Invalid signup data'' 400, s1)
                         | Some signupData \<Rightarrow>
                             (case transaction
                                     (signup_verify_tx x signupData (otp_id otpRecord)) s1 of
                                (Inl e, s2) \<Rightarrow> (JsonError ''Verification failed'' 500, s2)
                              | (Inr result, s2) \<Rightarrow>
                                  let token = generateToken x (user_id result) in
                                  (case session_create
                                          (new_session x (user_id result) token
                                             (now2 x + 30 * 24 * 60 * 60 * 1000)) s2 of
                                     (Inl e, s3) \<Rightarrow> (JsonError ''Verification failed'' 500, s3)
                                   | (Inr r, s3) \<Rightarrow>
                                       (Authenticated ''Account created successfully''
                                          (view_of result) token, s3)))))
             | _ \<Rightarrow> (JsonError ''Verification failed'' 500, s)))"


section \<open>Sign-in\<close>

text \<open>
  \<^verbatim>\<open>/api/signin\<close> and \<^verbatim>\<open>/api/signin/resend\<close> have the same body up to the two messages
  they answer with, which are the parameters of \<open>signin_with\<close>.
\<close>

definition signin_with :: "string \<Rightarrow> string \<Rightarrow> ext \<Rightarrow> json option \<Rightarrow> db \<Rightarrow> response \<times> db" where
  "signin_with failed sent x body s =
     (case destructure body of
        None \<Rightarrow> (JsonError ''Invalid request data'' 400, s)
      | Some f \<Rightarrow>
          if \<not> truthy (f ''email'') then (JsonError ''Email is required'' 400, s)
          else
            let s1 = cleanupExpiredOtps (now1 x) s in
            (case str_of (f ''email'') of
               None \<Rightarrow> (JsonError failed 500, s1)
             | Some email \<Rightarrow>
                 (case user_findUnique (normalize email) s1 of
                    (None, s2) \<Rightarrow> (JsonError ''User not found'' 404, s2)
                  | (Some user, s2) \<Rightarrow>
                      if \<not> user_verified user
                      then (JsonError ''Please complete signup verification first'' 400, s2)
                      else if \<not> user_isActive user
                      then (JsonError ''Account is deactivated'' 403, s2)
                      else
                        let s3 = otp_deleteMany
                                   (\<lambda>r. otp_email r = normalize email \<and> otp_type r = SIGNIN) s2;
                            code = generateOTP (random_draw x);
                            expiresAt = now2 x + 10 * 60 * 1000
                        in
                        (case otp_create
                                \<lparr>otp_id = new_id x, otp_code = code,
                                 otp_email = normalize email, otp_type = SIGNIN,
                                 otp_expiresAt = expiresAt, otp_verified = False,
                                 otp_attempts = 0, otp_userId = Some (user_id user),
                                 otp_signupData = None\<rparr> s3 of
                           (Inl e, s4) \<Rightarrow> (JsonError failed 500, s4)
                         | (Inr r, s4) \<Rightarrow>
                             if email_ok x then (OtpSent sent (normalize email), s4)
                             else (JsonError failed 500, s4)))))"

definition signin :: "ext \<Rightarrow> json option \<Rightarrow> db \<Rightarrow> response \<times> db" where
  "signin = signin_with ''Failed to send OTP'' ''OTP sent to your email''"

definition signin_resend :: "ext \<Rightarrow> json option \<Rightarrow> db \<Rightarrow> response \<times> db" where
  "signin_resend = signin_with ''Failed to resend OTP'' ''New OTP sent to your email''"

text \<open>\<^verbatim>\<open>include: { user: true }\<close>: the row's user, read in the same call.\<close>

definition otp_user :: "Otp \<Rightarrow> db \<Rightarrow> User option" where
  "otp_user r s =
     (case otp_userId r of None \<Rightarrow> None | Some uid \<Rightarrow> find (\<lambda>u. user_id u = uid) (db_users s))"

definition signin_verify :: "ext \<Rightarrow> json option \<Rightarrow> db \<Rightarrow> response \<times> db" where
  "signin_verify x body s =
     (case destructure body of
        None \<Rightarrow> (JsonError ''Invalid request data'' 400, s)
      | Some f \<Rightarrow>
          if \<not> truthy (f ''email'') \<or> \<not> truthy (f ''otp'')
          then (JsonError ''Email and OTP are required'' 400, s)
          else
            (case (str_of (f ''email''), str_of (f ''otp'')) of
               (Some email, Some otp) \<Rightarrow>
                 (case otp_findFirst (otp_where email otp SIGNIN (now1 x)) s of
                    (None, s1) \<Rightarrow> (JsonError ''Invalid or expired OTP'' 400, s1)
                  | (Some otpRecord, s1) \<Rightarrow>
                      (case otp_user otpRecord s of
                         None \<Rightarrow>
                           (case otp_update (otp_id otpRecord)
                                   (\<lambda>r. r\<lparr>otp_attempts := otp_attempts r + 1\<rparr>) s1 of
                              (Inl e, s2) \<Rightarrow> (JsonError ''Signin failed'' 500, s2)
                            | (Inr u, s2) \<Rightarrow> (JsonError ''Invalid or expired OTP'' 400, s2))
                       | Some user \<Rightarrow>
                           if otp_attempts otpRecord \<ge> 5
                           then (JsonError ''Too many attempts. Please request a new OTP.'' 400, s1)
                           else
                             (case otp_update (otp_id otpRecord)
                                     (\<lambda>r. r\<lparr>otp_verified := True\<rparr>) s1 of
                                (Inl e, s2) \<Rightarrow> (JsonError ''Signin failed'' 500, s2)
                              | (Inr u, s2) \<Rightarrow>
                                  let token = generateToken x (user_id user);
                                      expiresAt =
                                        (if truthy (f ''keepLoggedIn'')
                                         then now2 x + 30 * 24 * 60 * 60 * 1000
                                         else now2 x + 24 * 60 * 60 * 1000)
                                  in
                                  (case session_create
                                          (new_session x (user_id user) token expiresAt) s2 of
                                     (Inl e, s3) \<Rightarrow> (JsonError ''Signin failed'' 500, s3)
                                   | (Inr r, s3) \<Rightarrow>
                                       (Authenticated ''Signed in successfully''
                                          (view_of user) token, s3)))))
             | _ \<Rightarrow> (JsonError ''Signin failed'' 500, s)))"

text \<open>
  \<^verbatim>\<open>/api/logout\<close> passes the body's \<^verbatim>\<open>token\<close> to the ORM as the filter on
  \<^verbatim>\<open>sessions.token\<close>: a string selects the rows with that token.
\<close>

definition logout :: "ext \<Rightarrow> json option \<Rightarrow> db \<Rightarrow> response \<times> db" where
  "logout x body s =
     (case destructure body of
        None \<Rightarrow> (JsonError ''Invalid request data'' 400, s)
      | Some f \<Rightarrow>
          if \<not> truthy (f ''token'') then (JsonError ''Token is required'' 400, s)
          else
            (case (case f ''token'' of
                     Some (JStr token) \<Rightarrow> Some (\<lambda>t. t = token)
                   | Some v \<Rightarrow> string_filter x v
                   | None \<Rightarrow> None) of
               None \<Rightarrow> (JsonError ''Logout failed'' 500, logged SessionUpdateMany s)
             | Some matches \<Rightarrow>
                 (Message ''Logged out successfully'',
                  session_updateMany (\<lambda>r. matches (session_token r))
                    (\<lambda>r. r\<lparr>session_isActive := False\<rparr>) s)))"


section \<open>Notes\<close>

definition notes_get :: "ext \<Rightarrow> string option \<Rightarrow> db \<Rightarrow> response \<times> db" where
  "notes_get x authHeader s =
     (case authMiddleware x authHeader s of
        (Inl r, s1) \<Rightarrow> (r, s1)
      | (Inr userId, s1) \<Rightarrow>
          (case note_findMany userId s1 of (found, s2) \<Rightarrow> (NotesList found, s2)))"

text \<open>
  \<^verbatim>\<open>const { title, content = '' } = body\<close>: an absent \<^verbatim>\<open>content\<close> is the empty string.
\<close>

definition notes_post :: "ext \<Rightarrow> string option \<Rightarrow> json option \<Rightarrow> db \<Rightarrow> response \<times> db" where
  "notes_post x authHeader body s =
     (case authMiddleware x authHeader s of
        (Inl r, s1) \<Rightarrow> (r, s1)
      | (Inr userId, s1) \<Rightarrow>
          (case destructure body of
             None \<Rightarrow> (JsonError ''Failed to create note'' 500, s1)
           | Some f \<Rightarrow>
               let title = f ''title'';
                   content = (case f ''content'' of None \<Rightarrow> Some (JStr []) | Some v \<Rightarrow> Some v)
               in
               if \<not> truthy title then (JsonError ''Title is required'' 400, s1)
               else
                 (case str_of title of
                    None \<Rightarrow> (JsonError ''Failed to create note'' 500, s1)
                  | Some t \<Rightarrow>
                      if trim t = [] then (JsonError ''Title is required'' 400, s1)
                      else
                        (case str_of content of
                           None \<Rightarrow> (JsonError ''Failed to create note'' 500, s1)
                         | Some c \<Rightarrow>
                             (case note_create
                                     \<lparr>note_id = new_id x, note_title = trim t,
                                      note_content = trim c, note_userId = userId,
                                      note_createdAt = db_now x, note_updatedAt = db_now x\<rparr> s1 of
                                (Inl e, s2) \<Rightarrow> (JsonError ''Failed to create note'' 500, s2)
                              | (Inr n, s2) \<Rightarrow>
                                  (NoteSaved ''Note created successfully'' n, s2))))))"

definition notes_put ::
  "ext \<Rightarrow> string option \<Rightarrow> string \<Rightarrow> json option \<Rightarrow> db \<Rightarrow> response \<times> db" where
  "notes_put x authHeader noteId body s =
     (case authMiddleware x authHeader s of
        (Inl r, s1) \<Rightarrow> (r, s1)
      | (Inr userId, s1) \<Rightarrow>
          (case destructure body of
             None \<Rightarrow> (JsonError ''Failed to update note'' 500, s1)
           | Some f \<Rightarrow>
               let title = f ''title''; content = f ''content'' in
               if \<not> truthy title \<and> content = None
               then (JsonError ''Title or content is required'' 400, s1)
               else
                 (case note_findFirst (\<lambda>n. note_id n = noteId \<and> note_userId n = userId) s1 of
                    (None, s2) \<Rightarrow> (JsonError ''Note not found'' 404, s2)
                  | (Some existingNote, s2) \<Rightarrow>
                      if truthy title \<and> str_of title = None
                      then (JsonError ''Failed to update note'' 500, s2)
                      else if content \<noteq> None \<and> str_of content = None
                      then (JsonError ''Failed to update note'' 500, s2)
                      else
                        (case note_update noteId
                                (\<lambda>n. n\<lparr>note_title :=
                                          (if truthy title then trim (the (str_of title))
                                           else note_title n),
                                        note_content :=
                                          (if content \<noteq> None then trim (the (str_of content))
                                           else note_content n),
                                        note_updatedAt := db_now x\<rparr>) s2 of
                           (Inl e, s3) \<Rightarrow> (JsonError ''Failed to update note'' 500, s3)
                         | (Inr n, s3) \<Rightarrow> (NoteSaved ''Note updated successfully'' n, s3)))))"

definition notes_delete :: "ext \<Rightarrow> string option \<Rightarrow> string \<Rightarrow> db \<Rightarrow> response \<times> db" where
  "notes_delete x authHeader noteId s =
     (case authMiddleware x authHeader s of
        (Inl r, s1) \<Rightarrow> (r, s1)
      | (Inr userId, s1) \<Rightarrow>
          (case note_findFirst (\<lambda>n. note_id n = noteId \<and> note_userId n = userId) s1 of
             (None, s2) \<Rightarrow> (JsonError ''Note not found'' 404, s2)
           | (Some existingNote, s2) \<Rightarrow>
               (case note_delete noteId s2 of
                  (Inl e, s3) \<Rightarrow> (JsonError ''Failed to delete note'' 500, s3)
                | (Inr u, s3) \<Rightarrow> (Message ''Note deleted successfully'', s3))))"

definition health :: "ext \<Rightarrow> db \<Rightarrow> response \<times> db" where
  "health x s = (Health (now1 x), s)"


section \<open>The API as a transition system\<close>

datatype request =
    PostSignup "json option"
  | PostSignupVerify "json option"
  | PostSignin "json option"
  | PostSigninVerify "json option"
  | PostSigninResend "json option"
  | PostLogout "json option"
  | GetNotes "string option"
  | PostNotes "string option" "json option"
  | PutNote "string option" string "json option"
  | DeleteNote "string option" string
  | GetHealth

fun api :: "request \<Rightarrow> ext \<Rightarrow> db \<Rightarrow> response \<times> db" where
  "api (PostSignup body) x s = signup x body s"
| "api (PostSignupVerify body) x s = signup_verify x body s"
| "api (PostSignin body) x s = signin x body s"
| "api (PostSigninVerify body) x s = signin_verify x body s"
| "api (PostSigninResend body) x s = signin_resend x body s"
| "api (PostLogout body) x s = logout x body s"
| "api (GetNotes h) x s = notes_get x h s"
| "api (PostNotes h body) x s = notes_post x h body s"
| "api (PutNote h i body) x s = notes_put x h i body s"
| "api (DeleteNote h i) x s = notes_delete x h i s"
| "api GetHealth x s = health x s"

text \<open>Requests are served one after the other, each with its own external inputs.\<close>

fun run :: "(request \<times> ext) list \<Rightarrow> db \<Rightarrow> db" where
  "run [] s = s"
| "run ((q, x) # rest) s = run rest (snd (api q x s))"


section \<open>Vocabulary of the properties\<close>

text \<open>Reading a decimal numeral back, to say that \<open>toString\<close> writes the number it is given.\<close>

definition digit_value :: "char \<Rightarrow> nat" where
  "digit_value c =
     (case map_of (zip ''0123456789'' [0, 1, 2, 3, 4, 5, 6, 7, 8, 9]) c of
        None \<Rightarrow> 0
      | Some d \<Rightarrow> d)"

definition decimal_value :: "string \<Rightarrow> nat" where
  "decimal_value cs = foldl (\<lambda>a c. 10 * a + digit_value c) 0 cs"

text \<open>
  A small world to run the handlers in: a JWT library that signs the user id \<open>u\<close> as
  \<open>jwt-u\<close> followed by a dot and the time of issue, a date parser that accepts strings, a mail provider that answers OK, and an ORM
  that refuses every non-string filter. Users \<open>u1\<close> (Ann) and \<open>u2\<close> (Bob) each hold a
  session and a note.
\<close>

definition ext0 :: ext where
  "ext0 = \<lparr>now1 = 1000, now2 = 1001, db_now = 1002, random_draw = 482913,
          new_id = ''id-a'', new_session_id = ''id-b'',
          jwt_sign = (\<lambda>u. ''jwt-'' @ u @ ''.1000''),
          jwt_verify =
            (\<lambda>t. if take 4 t = ''jwt-''
                 then Some (takeWhile (\<lambda>c. c \<noteq> CHR ''.'') (drop 4 t), ''session'')
                 else None),
          email_ok = True,
          parse_date = (\<lambda>v. case v of JStr d \<Rightarrow> Some 0 | _ \<Rightarrow> None),
          string_filter = (\<lambda>v. None),
          hdr_user_agent = None, hdr_cf_connecting_ip = None, hdr_x_forwarded_for = None\<rparr>"

definition ann :: User where
  "ann = \<lparr>user_id = ''u1'', user_email = ''ann@x.io'', user_name = ''Ann'',
           user_dateOfBirth = 0, user_verified = True, user_isActive = True\<rparr>"

definition bob :: User where
  "bob = \<lparr>user_id = ''u2'', user_email = ''bob@x.io'', user_name = ''Bob'',
           user_dateOfBirth = 0, user_verified = True, user_isActive = True\<rparr>"

definition ann_session :: Session where
  "ann_session = \<lparr>session_id = ''ses1'', session_userId = ''u1'', session_token = ''jwt-u1'',
                   session_expiresAt = 5000, session_isActive = True,
                   session_userAgent = None, session_ipAddress = Some ''unknown''\<rparr>"

definition bob_session :: Session where
  "bob_session = \<lparr>session_id = ''ses2'', session_userId = ''u2'', session_token = ''jwt-u2'',
                   session_expiresAt = 5000, session_isActive = True,
                   session_userAgent = None, session_ipAddress = Some ''unknown''\<rparr>"

definition ann_note :: Note where
  "ann_note = \<lparr>note_id = ''n1'', note_title = ''milk'', note_content = ''two'',
                note_userId = ''u1'', note_createdAt = 10, note_updatedAt = 10\<rparr>"

definition bob_note :: Note where
  "bob_note = \<lparr>note_id = ''n2'', note_title = ''keys'', note_content = '''',
                note_userId = ''u2'', note_createdAt = 20, note_updatedAt = 20\<rparr>"

definition db0 :: db where
  "db0 = \<lparr>db_users = [ann, bob], db_otps = [], db_sessions = [ann_session, bob_session],
          db_notes = [ann_note, bob_note], orm_log = []\<rparr>"

text \<open>
  The same world with two live one-time codes: a sign-in code for Ann and a sign-up code
  for a new address.
\<close>

definition ann_otp :: Otp where
  "ann_otp = \<lparr>otp_id = ''o1'', otp_code = ''482913'', otp_email = ''ann@x.io'',
               otp_type = SIGNIN, otp_expiresAt = 5000, otp_verified = False,
               otp_attempts = 0, otp_userId = Some ''u1'', otp_signupData = None\<rparr>"

definition cat_data :: signup_data where
  "cat_data = \<lparr>sd_name = ''Cat'', sd_email = ''cat@x.io'', sd_dateOfBirth = JStr ''2000-01-01''\<rparr>"

definition cat_otp :: Otp where
  "cat_otp = \<lparr>otp_id = ''o2'', otp_code = ''135790'', otp_email = ''cat@x.io'',
               otp_type = SIGNUP, otp_expiresAt = 5000, otp_verified = False,
               otp_attempts = 0, otp_userId = None,
               otp_signupData = Some cat_data\<rparr>"

definition db1 :: db where
  "db1 = db0\<lparr>db_otps := [ann_otp, cat_otp]\<rparr>"

definition verify_body :: "string \<Rightarrow> string \<Rightarrow> json option" where
  "verify_body email otp = Some (JObj [(''email'', JStr email), (''otp'', JStr otp)])"

text \<open>
  The ORM calls a request issues are what it appends to the log; a \<open>Transaction\<close> entry
  stands for one multi-statement transaction, every other entry for one call outside
  any transaction.
\<close>

fun is_transaction :: "orm_call \<Rightarrow> bool" where
  "is_transaction (Transaction cs) = True"
| "is_transaction c = False"

definition issued :: "db \<Rightarrow> db \<Rightarrow> orm_call list" where
  "issued s s' = drop (length (orm_log s)) (orm_log s')"

fun count_plain :: "orm_call list \<Rightarrow> nat" where
  "count_plain [] = 0"
| "count_plain (c # cs) = (if is_transaction c then 0 else 1) + count_plain cs"

fun count_transactions :: "orm_call list \<Rightarrow> nat" where
  "count_transactions [] = 0"
| "count_transactions (c # cs) = (if is_transaction c then 1 else 0) + count_transactions cs"

definition plain_calls :: "db \<Rightarrow> db \<Rightarrow> nat" where
  "plain_calls s s' = count_plain (issued s s')"

definition transactions :: "db \<Rightarrow> db \<Rightarrow> nat" where
  "transactions s s' = count_transactions (issued s s')"

text \<open>
  A handler only appends to the log; \<open>within p t s s'\<close> bounds what it appended by \<open>p\<close>
  calls outside a transaction and \<open>t\<close> transactions.
\<close>

definition within :: "nat \<Rightarrow> nat \<Rightarrow> db \<Rightarrow> db \<Rightarrow> bool" where
  "within p t s s' =
     (\<exists>cs. orm_log s' = orm_log s @ cs \<and> count_plain cs \<le> p \<and> count_transactions cs \<le> t)"

fun call_budget :: "request \<Rightarrow> nat" where
  "call_budget (PostSignup body) = 4"
| "call_budget (PostSignupVerify body) = 2"
| "call_budget (PostSignin body) = 4"
| "call_budget (PostSigninVerify body) = 3"
| "call_budget (PostSigninResend body) = 4"
| "call_budget (PostLogout body) = 1"
| "call_budget (GetNotes h) = 2"
| "call_budget (PostNotes h body) = 2"
| "call_budget (PutNote h i body) = 3"
| "call_budget (DeleteNote h i) = 3"
| "call_budget GetHealth = 0"

fun transaction_budget :: "request \<Rightarrow> nat" where
  "transaction_budget (PostSignupVerify body) = 1"
| "transaction_budget q = 0"

definition signup_body :: "string \<Rightarrow> string \<Rightarrow> string \<Rightarrow> json option" where
  "signup_body name email dateOfBirth =
     Some (JObj [(''name'', JStr name), (''email'', JStr email),
                 (''dateOfBirth'', JStr dateOfBirth)])"

text \<open>The invariant of the table of codes: one row at most for an e-mail and a type.\<close>

definition otp_key :: "Otp \<Rightarrow> string \<times> OtpType" where
  "otp_key r = (otp_email r, otp_type r)"

definition otp_unique :: "db \<Rightarrow> bool" where
  "otp_unique s = distinct (map otp_key (db_otps s))"

text \<open>
  The two writes of sign-up verification, seen from outside the transaction: the new user
  row \<open>u\<close> is there and every code row with id \<open>i\<close> is marked verified and points to \<open>u\<close>,
  or the users and codes tables are what they were.
\<close>

definition both_written :: "User \<Rightarrow> string \<Rightarrow> db \<Rightarrow> db \<Rightarrow> bool" where
  "both_written u i s s' =
     (db_users s' = db_users s @ [u]
      \<and> db_otps s' =
          map (\<lambda>r. if otp_id r = i then r\<lparr>otp_verified := True, otp_userId := Some (user_id u)\<rparr>
                    else r) (db_otps s))"

definition neither_written :: "db \<Rightarrow> db \<Rightarrow> bool" where
  "neither_written s s' = (db_users s' = db_users s \<and> db_otps s' = db_otps s)"

definition all_or_nothing :: "db \<Rightarrow> db \<Rightarrow> bool" where
  "all_or_nothing s s' = (neither_written s s' \<or> (\<exists>u i. both_written u i s s'))"

text \<open>
  The session rows of a token, a token whose rows exist and are all inactive, and the
  notes requests that carry a token in their \<^verbatim>\<open>Authorization\<close> header.
\<close>

definition token_rows :: "string \<Rightarrow> db \<Rightarrow> Session list" where
  "token_rows T s = filter (\<lambda>r. session_token r = T) (db_sessions s)"

definition token_dead :: "string \<Rightarrow> db \<Rightarrow> bool" where
  "token_dead T s = (token_rows T s \<noteq> [] \<and> list_all (\<lambda>r. \<not> session_isActive r) (token_rows T s))"

fun bears :: "string \<Rightarrow> request \<Rightarrow> bool" where
  "bears T (GetNotes h) = (h = Some (''Bearer '' @ T))"
| "bears T (PostNotes h body) = (h = Some (''Bearer '' @ T))"
| "bears T (PutNote h i body) = (h = Some (''Bearer '' @ T))"
| "bears T (DeleteNote h i) = (h = Some (''Bearer '' @ T))"
| "bears T q = False"

definition logout_body :: "string \<Rightarrow> json option" where
  "logout_body T = Some (JObj [(''token'', JStr T)])"

text \<open>
  What a verification request asks for: the normalised e-mail, the route's type and the
  trimmed code. A code is spent when every row with that e-mail, type and code is
  verified. An issuing request issues it again when it is for the same e-mail and type
  and draws the same code.
\<close>

definition key_of :: "OtpType \<Rightarrow> json option \<Rightarrow> (string \<times> OtpType \<times> string) option" where
  "key_of t body =
     (case destructure body of
        None \<Rightarrow> None
      | Some f \<Rightarrow>
          (case (str_of (f ''email''), str_of (f ''otp'')) of
             (Some email, Some otp) \<Rightarrow> Some (normalize email, t, trim otp)
           | _ \<Rightarrow> None))"

fun verify_key :: "request \<Rightarrow> (string \<times> OtpType \<times> string) option" where
  "verify_key (PostSignupVerify body) = key_of SIGNUP body"
| "verify_key (PostSigninVerify body) = key_of SIGNIN body"
| "verify_key q = None"

definition spent :: "string \<Rightarrow> OtpType \<Rightarrow> string \<Rightarrow> db \<Rightarrow> bool" where
  "spent e t c s =
     list_all otp_verified
       (filter (\<lambda>r. otp_email r = e \<and> otp_type r = t \<and> otp_code r = c) (db_otps s))"

definition email_of :: "json option \<Rightarrow> string option" where
  "email_of body =
     (case destructure body of
        None \<Rightarrow> None
      | Some f \<Rightarrow> map_option normalize (str_of (f ''email'')))"

fun reissues :: "string \<Rightarrow> OtpType \<Rightarrow> string \<Rightarrow> request \<times> ext \<Rightarrow> bool" where
  "reissues e t c (PostSignup body, x) =
     (t = SIGNUP \<and> email_of body = Some e \<and> generateOTP (random_draw x) = c)"
| "reissues e t c (PostSignin body, x) =
     (t = SIGNIN \<and> email_of body = Some e \<and> generateOTP (random_draw x) = c)"
| "reissues e t c (PostSigninResend body, x) =
     (t = SIGNIN \<and> email_of body = Some e \<and> generateOTP (random_draw x) = c)"
| "reissues e t c qx = False"


section \<open>Frame facts\<close>

lemma logged_tables [simp]:
  "db_users (logged c s) = db_users s"
  "db_otps (logged c s) = db_otps s"
  "db_sessions (logged c s) = db_sessions s"
  "db_notes (logged c s) = db_notes s"
  "orm_log (logged c s) = orm_log s @ [c]"
  by (simp_all add: logged_def)

lemma authMiddleware_state:
  "authMiddleware x h s = (r, s1) \<Longrightarrow> s1 = s \<or> s1 = logged SessionFindFirst s"
  by (auto simp: authMiddleware_def session_findFirst_def Let_def
           split: option.splits if_splits prod.splits)

lemma authMiddleware_tables:
  assumes "authMiddleware x h s = (r, s1)"
  shows "db_users s1 = db_users s" "db_otps s1 = db_otps s"
    "db_sessions s1 = db_sessions s" "db_notes s1 = db_notes s"
  using authMiddleware_state [OF assms] by auto

lemmas world =
  ext0_def db0_def ann_def bob_def ann_session_def bob_session_def ann_note_def bob_note_def
  db1_def ann_otp_def cat_otp_def cat_data_def verify_body_def

lemma find_SomeD: "find P xs = Some y \<Longrightarrow> y \<in> set xs \<and> P y"
  by (induction xs) (auto split: if_splits)

lemma session_create_tables:
  "session_create r s = (res, s') \<Longrightarrow>
     db_users s' = db_users s \<and> db_otps s' = db_otps s \<and> db_notes s' = db_notes s"
  by (auto simp: session_create_def split: if_splits)

lemma otp_update_tables:
  "otp_update i f s = (res, s') \<Longrightarrow>
     db_users s' = db_users s \<and> db_sessions s' = db_sessions s \<and> db_notes s' = db_notes s"
  by (auto simp: otp_update_def split: option.splits if_splits)

lemma str_of_Some: "str_of v = Some t \<longleftrightarrow> v = Some (JStr t)"
  by (cases v rule: str_of.cases) auto

lemmas strings = normalize_def trim_def toLowerCase_def toLowerCase_char_def is_space_def

lemmas orm_defs = logged_def cleanupExpiredOtps_def user_exists_def
  user_findUnique_def user_create_def otp_deleteMany_def otp_create_def
  otp_findFirst_def otp_update_def session_findFirst_def session_create_def
  session_updateMany_def note_findMany_def note_create_def note_findFirst_def
  note_update_def note_delete_def


text \<open>What each ORM call appends to the log, whatever it returns.\<close>

lemma log_deleteMany [simp]: "orm_log (otp_deleteMany P s) = orm_log s @ [OtpDeleteMany]"
  by (simp add: otp_deleteMany_def)

lemma log_cleanup [simp]: "orm_log (cleanupExpiredOtps t s) = orm_log s @ [OtpDeleteMany]"
  by (simp add: cleanupExpiredOtps_def)

lemma log_updateMany [simp]:
  "orm_log (session_updateMany P f s) = orm_log s @ [SessionUpdateMany]"
  by (simp add: session_updateMany_def)

lemma log_user_findUnique:
  "orm_log (snd (user_findUnique e s)) = orm_log s @ [UserFindUnique]"
  by (auto simp: user_findUnique_def)

lemma log_user_create:
  "orm_log (snd (user_create u s)) = orm_log s @ [UserCreate]"
  by (auto simp: user_create_def split: if_splits)

lemma log_otp_create:
  "orm_log (snd (otp_create r s)) = orm_log s @ [OtpCreate]"
  by (auto simp: otp_create_def split: if_splits)

lemma log_otp_findFirst:
  "orm_log (snd (otp_findFirst P s)) = orm_log s @ [OtpFindFirst]"
  by (auto simp: otp_findFirst_def)

lemma log_otp_update:
  "orm_log (snd (otp_update i f s)) = orm_log s @ [OtpUpdate]"
  by (auto simp: otp_update_def split: option.splits if_splits)

lemma log_session_create:
  "orm_log (snd (session_create r s)) = orm_log s @ [SessionCreate]"
  by (auto simp: session_create_def split: if_splits)

lemma log_note_findMany:
  "orm_log (snd (note_findMany u s)) = orm_log s @ [NoteFindMany]"
  by (auto simp: note_findMany_def)

lemma log_note_create:
  "orm_log (snd (note_create n s)) = orm_log s @ [NoteCreate]"
  by (auto simp: note_create_def split: if_splits)

lemma log_note_findFirst:
  "orm_log (snd (note_findFirst P s)) = orm_log s @ [NoteFindFirst]"
  by (auto simp: note_findFirst_def)

lemma log_note_update:
  "orm_log (snd (note_update i f s)) = orm_log s @ [NoteUpdate]"
  by (auto simp: note_update_def split: option.splits)

lemma log_note_delete:
  "orm_log (snd (note_delete i s)) = orm_log s @ [NoteDelete]"
  by (auto simp: note_delete_def split: option.splits)

lemma log_transaction:
  "orm_log (snd (transaction body s))
     = orm_log s @ [Transaction (orm_log (snd (body (s\<lparr>orm_log := []\<rparr>))))]"
  by (simp add: transaction_def logged_def split: prod.split sum.split)

lemma log_authMiddleware:
  "orm_log (snd (authMiddleware x h s)) = orm_log s
   \<or> orm_log (snd (authMiddleware x h s)) = orm_log s @ [SessionFindFirst]"
  using authMiddleware_state [of x h s "fst (authMiddleware x h s)" "snd (authMiddleware x h s)"]
  by auto

lemmas log_calls = log_user_findUnique log_user_create log_otp_create log_otp_findFirst
  log_otp_update log_session_create log_note_findMany log_note_create log_note_findFirst
  log_note_update log_note_delete log_transaction


lemma auth_cases:
  assumes "P s" "P (logged SessionFindFirst s)"
  shows "P (snd (authMiddleware x h s))"
  using authMiddleware_state [of x h s "fst (authMiddleware x h s)" "snd (authMiddleware x h s)"]
    assms by auto


lemma auth0: "authMiddleware ext0 (Some ''Bearer jwt-u1'') db0 = (Inr ''u1'', logged SessionFindFirst db0)"
  by (simp add: authMiddleware_def verifyToken_def session_findFirst_def world)


lemma signup_verify_tx_commits:
  assumes "signup_verify_tx x sd i t = (Inr u, t')"
  shows "db_users t' = db_users t @ [u]"
    and "db_otps t' =
          map (\<lambda>r. if otp_id r = i then r\<lparr>otp_verified := True, otp_userId := Some (user_id u)\<rparr>
                    else r) (db_otps t)"
  using assms
  by (auto simp: signup_verify_tx_def orm_defs
           split: option.splits sum.splits prod.splits if_splits)

lemma transaction_all_or_nothing:
  "(fst (transaction (signup_verify_tx x sd i) s) = Inl e \<longrightarrow>
      neither_written s (snd (transaction (signup_verify_tx x sd i) s)))
   \<and> (fst (transaction (signup_verify_tx x sd i) s) = Inr u \<longrightarrow>
      both_written u i s (snd (transaction (signup_verify_tx x sd i) s)))"
proof (cases "signup_verify_tx x sd i (s\<lparr>orm_log := []\<rparr>)")
  case (Pair res t)
  show ?thesis
  proof (cases res)
    case (Inl e')
    with Pair show ?thesis
      by (simp add: transaction_def neither_written_def)
  next
    case (Inr u')
    with Pair signup_verify_tx_commits [of x sd i "s\<lparr>orm_log := []\<rparr>" u' t] show ?thesis
      by (simp add: transaction_def both_written_def)
  qed
qed



section \<open>The one-time code\<close>

lemma digit_char_cases: "d < 10 \<Longrightarrow> d = 0 \<or> d = 1 \<or> d = 2 \<or> d = 3 \<or> d = 4 \<or> d = 5 \<or> d = 6 \<or> d = 7 \<or> d = 8 \<or> d = (9::nat)"
  by arith

lemma digit_char_is_digit: "d < 10 \<Longrightarrow> is_digit (digit_char d)"
  using digit_char_cases [of d] by (auto simp: is_digit_def digit_char_def)

lemma digit_value_digit_char: "d < 10 \<Longrightarrow> digit_value (digit_char d) = d"
  using digit_char_cases [of d] by (auto simp: digit_value_def digit_char_def)

lemma digit_char_zero: "d < 10 \<Longrightarrow> digit_char d = CHR ''0'' \<longleftrightarrow> d = 0"
  using digit_char_cases [of d] by (auto simp: digit_char_def)

lemma digits_nonempty: "digits n \<noteq> []"
  by (subst digits.simps) simp

lemma digits_is_digit: "c \<in> set (digits n) \<Longrightarrow> is_digit c"
proof (induction n arbitrary: c rule: digits.induct)
  case (1 n)
  show ?case
  proof (cases "n < 10")
    case True
    with "1.prems" show ?thesis
      by (subst (asm) digits.simps) (simp add: digit_char_is_digit)
  next
    case False
    with "1.prems" have "c \<in> set (digits (n div 10)) \<or> c = digit_char (n mod 10)"
      by (subst (asm) digits.simps) auto
    with False "1.IH" show ?thesis
      by (auto simp: digit_char_is_digit)
  qed
qed

lemma decimal_value_digits: "decimal_value (digits n) = n"
proof (induction n rule: digits.induct)
  case (1 n)
  show ?case
  proof (cases "n < 10")
    case True
    then show ?thesis
      by (subst digits.simps) (simp add: decimal_value_def digit_value_digit_char)
  next
    case False
    with "1.IH" have "decimal_value (digits (n div 10)) = n div 10" by simp
    with False show ?thesis
      by (subst digits.simps) (simp add: decimal_value_def digit_value_digit_char)
  qed
qed

lemma hd_digits: "0 < n \<Longrightarrow> hd (digits n) \<noteq> CHR ''0''"
proof (induction n rule: digits.induct)
  case (1 n)
  show ?case
  proof (cases "n < 10")
    case True
    with "1.prems" show ?thesis
      by (subst digits.simps) (simp add: digit_char_zero)
  next
    case False
    then have "0 < n div 10" by simp
    with False "1.IH" have "hd (digits (n div 10)) \<noteq> CHR ''0''" by simp
    with False show ?thesis
      by (subst digits.simps) (simp add: digits_nonempty)
  qed
qed

lemma length_digits: "10 ^ k \<le> n \<Longrightarrow> n < 10 ^ Suc k \<Longrightarrow> length (digits n) = Suc k"
proof (induction k arbitrary: n)
  case 0
  then show ?case by (subst digits.simps) simp
next
  case (Suc k)
  define m :: nat where "m = 10 ^ k"
  have pos: "1 \<le> m" by (simp add: m_def)
  from Suc.prems have bounds: "10 * m \<le> n" "n < 100 * m" by (simp_all add: m_def)
  from pos bounds have big: "\<not> n < 10" by arith
  from bounds have "m \<le> n div 10" "n div 10 < 10 * m" by arith+
  then have ge: "10 ^ k \<le> n div 10" and lt: "n div 10 < 10 ^ Suc k" by (simp_all add: m_def)
  show ?case
    using Suc.IH [OF ge lt] big by (subst digits.simps) simp
qed

text \<open>
  C10: for every draw \<open>r\<close> that \<^verbatim>\<open>crypto.randomInt(100000, 999999)\<close> can return,
  \<open>generateOTP\<close> returns the decimal numeral of \<open>r\<close>: six characters, all of them digits,
  the first one not \<open>0\<close>, and reading the numeral back gives \<open>r\<close>.
\<close>

theorem generateOTP_six_digits:
  assumes "randomInt_range 100000 999999 r"
  shows "length (generateOTP r) = 6
         \<and> hd (generateOTP r) \<noteq> CHR ''0''
         \<and> list_all is_digit (generateOTP r)
         \<and> int (decimal_value (generateOTP r)) = r"
proof -
  from assms have r: "100000 \<le> r" "r < 999999" by (simp_all add: randomInt_range_def)
  then have g: "generateOTP r = digits (nat r)" by (simp add: generateOTP_def toString_def)
  have "10 ^ 5 \<le> nat r" "nat r < 10 ^ Suc 5" using r by simp_all
  then have "length (digits (nat r)) = Suc 5" by (rule length_digits)
  moreover have "hd (digits (nat r)) \<noteq> CHR ''0''" using r by (intro hd_digits) simp
  moreover have "list_all is_digit (digits (nat r))" by (simp add: list_all_iff digits_is_digit)
  moreover have "int (decimal_value (digits (nat r))) = r" using r by (simp add: decimal_value_digits)
  ultimately show ?thesis by (simp add: g)
qed

theorem generateOTP_six_digits_witness:
  "randomInt_range 100000 999999 482913 \<and> generateOTP 482913 = ''482913'' \<and> length (generateOTP 482913) = 6"
  using generateOTP_six_digits [of 482913]
  by (simp add: randomInt_range_def generateOTP_def toString_def digits.simps digit_char_def)



section \<open>Notes belong to their user\<close>

lemma sorted_desc:
  "sorted (map (\<lambda>n. - note_createdAt n) xs) \<Longrightarrow> sorted (rev (map note_createdAt xs))"
  by (induction xs) (auto simp: sorted_append)

lemma note_findMany_result:
  "note_findMany userId s = (found, s') \<Longrightarrow>
     mset found = mset (filter (\<lambda>n. note_userId n = userId) (db_notes s))
     \<and> sorted (rev (map note_createdAt found))"
  by (auto simp: note_findMany_def intro: sorted_desc sorted_sort_key)

text \<open>
  C1 (as amended): for every request that passes \<open>authMiddleware\<close> with user id
  \<open>userId\<close>, \<^verbatim>\<open>GET /api/notes\<close> answers with exactly the notes whose \<open>userId\<close> is the
  requester's, newest first. When no note with id \<open>noteId\<close> belongs to the requester,
  \<^verbatim>\<open>DELETE /api/notes/:id\<close> answers 404, \<^verbatim>\<open>PUT /api/notes/:id\<close> answers 404 if the body
  carries a truthy title or a content field, 400 if it carries neither and 500 if it
  cannot be destructured, and both leave the notes table as it was.
\<close>

theorem notes_per_user:
  assumes auth: "authMiddleware x h s = (Inr userId, s1)"
  shows "(\<exists>found. fst (notes_get x h s) = NotesList found
            \<and> mset found = mset (filter (\<lambda>n. note_userId n = userId) (db_notes s))
            \<and> sorted (rev (map note_createdAt found)))
       \<and> ((\<forall>n \<in> set (db_notes s). note_id n = noteId \<longrightarrow> note_userId n \<noteq> userId) \<longrightarrow>
            db_notes (snd (notes_put x h noteId body s)) = db_notes s
          \<and> status (fst (notes_put x h noteId body s)) =
              (case destructure body of
                 None \<Rightarrow> 500
               | Some f \<Rightarrow> if \<not> truthy (f ''title'') \<and> f ''content'' = None then 400 else 404)
          \<and> db_notes (snd (notes_delete x h noteId s)) = db_notes s
          \<and> fst (notes_delete x h noteId s) = JsonError ''Note not found'' 404)"
proof -
  note tabs = authMiddleware_tables [OF auth]
  have get: "\<exists>found. fst (notes_get x h s) = NotesList found
            \<and> mset found = mset (filter (\<lambda>n. note_userId n = userId) (db_notes s))
            \<and> sorted (rev (map note_createdAt found))"
  proof (cases "note_findMany userId s1")
    case (Pair found s2)
    from note_findMany_result [OF Pair] show ?thesis
      by (simp add: notes_get_def auth Pair tabs)
  qed
  have rest: "db_notes (snd (notes_put x h noteId body s)) = db_notes s
          \<and> status (fst (notes_put x h noteId body s)) =
              (case destructure body of
                 None \<Rightarrow> 500
               | Some f \<Rightarrow> if \<not> truthy (f ''title'') \<and> f ''content'' = None then 400 else 404)
          \<and> db_notes (snd (notes_delete x h noteId s)) = db_notes s
          \<and> fst (notes_delete x h noteId s) = JsonError ''Note not found'' 404"
    if foreign: "\<forall>n \<in> set (db_notes s). note_id n = noteId \<longrightarrow> note_userId n \<noteq> userId"
  proof -
    have nofind: "find (\<lambda>n. note_id n = noteId \<and> note_userId n = userId) (db_notes s1) = None"
      using foreign by (auto simp: find_None_iff tabs)
    have put: "db_notes (snd (notes_put x h noteId body s)) = db_notes s
         \<and> status (fst (notes_put x h noteId body s)) =
             (case destructure body of
                None \<Rightarrow> 500
              | Some f \<Rightarrow> if \<not> truthy (f ''title'') \<and> f ''content'' = None then 400 else 404)"
      using nofind
      by (simp add: notes_put_def auth note_findFirst_def Let_def tabs split: option.splits)
    have del: "db_notes (snd (notes_delete x h noteId s)) = db_notes s
         \<and> fst (notes_delete x h noteId s) = JsonError ''Note not found'' 404"
      using nofind by (simp add: notes_delete_def auth note_findFirst_def tabs)
    from put del show ?thesis by blast
  qed
  from get rest show ?thesis by blast
qed

theorem notes_per_user_witness:
  "authMiddleware ext0 (Some ''Bearer jwt-u1'') db0 = (Inr ''u1'', logged SessionFindFirst db0)
   \<and> fst (notes_get ext0 (Some ''Bearer jwt-u1'') db0) = NotesList [ann_note]
   \<and> status (fst (notes_put ext0 (Some ''Bearer jwt-u1'') ''n2''
                     (Some (JObj [(''title'', JStr ''mine'')])) db0)) = 404
   \<and> db_notes (snd (notes_put ext0 (Some ''Bearer jwt-u1'') ''n2''
                      (Some (JObj [(''title'', JStr ''mine'')])) db0)) = db_notes db0
   \<and> fst (notes_delete ext0 (Some ''Bearer jwt-u1'') ''n2'' db0) = JsonError ''Note not found'' 404
   \<and> db_notes (snd (notes_delete ext0 (Some ''Bearer jwt-u1'') ''n2'' db0)) = db_notes db0"
proof -
  have foreign: "\<forall>n \<in> set (db_notes db0). note_id n = ''n2'' \<longrightarrow> note_userId n \<noteq> ''u1''"
    by (simp add: world)
  have get: "fst (notes_get ext0 (Some ''Bearer jwt-u1'') db0) = NotesList [ann_note]"
    by (simp add: notes_get_def auth0 note_findMany_def) (simp add: world)
  from foreign get auth0
    notes_per_user [OF auth0, of "''n2''" "Some (JObj [(''title'', JStr ''mine'')])"]
  show ?thesis by simp
qed

text \<open>
  C1 as stated fails: Ann sends \<^verbatim>\<open>PUT /api/notes/n2\<close> for Bob's note \<open>n2\<close> with the body
  \<^verbatim>\<open>{}\<close>; the handler checks the body before it looks the note up and answers 400,
  not 404.
\<close>

theorem notes_put_foreign_counterexample:
  "authMiddleware ext0 (Some ''Bearer jwt-u1'') db0 = (Inr ''u1'', logged SessionFindFirst db0)
   \<and> note_id bob_note = ''n2'' \<and> note_userId bob_note = ''u2'' \<and> bob_note \<in> set (db_notes db0)
   \<and> fst (notes_put ext0 (Some ''Bearer jwt-u1'') ''n2'' (Some (JObj [])) db0)
       = JsonError ''Title or content is required'' 400"
  by (simp add: notes_put_def auth0) (simp add: world)



section \<open>The attempt counter\<close>

text \<open>
  C2: a verification request with a wrong code is meant to add one to the \<open>attempts\<close> of
  the live code of that e-mail and type. The handlers look the record up by the code
  itself, so a wrong code finds nothing: Ann's live sign-in code is \<open>482913\<close>, the request
  carries \<open>000000\<close>, the answer is 400 and the table of codes, with \<open>attempts = 0\<close>
  everywhere, is as it was. The same holds on the sign-up route, which has no increment
  at all.
\<close>

theorem verify_wrong_code_not_counted:
  "find (\<lambda>r. otp_email r = ''ann@x.io'' \<and> otp_type r = SIGNIN \<and> \<not> otp_verified r
               \<and> otp_expiresAt r > now1 ext0) (db_otps db1) = Some ann_otp
   \<and> otp_code ann_otp \<noteq> ''000000''
   \<and> fst (signin_verify ext0 (verify_body ''ann@x.io'' ''000000'') db1)
       = JsonError ''Invalid or expired OTP'' 400
   \<and> db_otps (snd (signin_verify ext0 (verify_body ''ann@x.io'' ''000000'') db1)) = db_otps db1
   \<and> fst (signup_verify ext0 (verify_body ''cat@x.io'' ''000000'') db1)
       = JsonError ''Invalid or expired OTP'' 400
   \<and> db_otps (snd (signup_verify ext0 (verify_body ''cat@x.io'' ''000000'') db1)) = db_otps db1
   \<and> map otp_attempts (db_otps db1) = [0, 0]"
  by (simp add: signin_verify_def signup_verify_def otp_findFirst_def otp_where_def
        normalize_def trim_def toLowerCase_def toLowerCase_char_def is_space_def world)


theorem verify_wrong_code_not_counted_witness:
  "map otp_attempts (db_otps (snd (signin_verify ext0 (verify_body ''ann@x.io'' ''000000'') db1)))
     = [0, 0]
   \<and> status (fst (signin_verify ext0 (verify_body ''ann@x.io'' ''000000'') db1)) = 400"
  using verify_wrong_code_not_counted by simp

text \<open>
  C3: when the record that a verification request matches has \<open>attempts \<ge> 5\<close>, the request
  is answered with status 400 and no token, and the users and sessions tables are as
  they were, on the sign-up route and on the sign-in route.
\<close>

theorem verify_attempt_limited:
  assumes body: "destructure body = Some f" "f ''email'' = Some (JStr email)"
      "f ''otp'' = Some (JStr otp)"
    and limit: "5 \<le> otp_attempts r"
  shows "(find (otp_where email otp SIGNUP (now1 x)) (db_otps s) = Some r \<longrightarrow>
            status (fst (signup_verify x body s)) = 400
          \<and> token_of (fst (signup_verify x body s)) = None
          \<and> db_users (snd (signup_verify x body s)) = db_users s
          \<and> db_sessions (snd (signup_verify x body s)) = db_sessions s)
       \<and> (find (otp_where email otp SIGNIN (now1 x)) (db_otps s) = Some r \<longrightarrow>
            status (fst (signin_verify x body s)) = 400
          \<and> token_of (fst (signin_verify x body s)) = None
          \<and> db_users (snd (signin_verify x body s)) = db_users s
          \<and> db_sessions (snd (signin_verify x body s)) = db_sessions s)"
proof (intro conjI impI)
  assume found: "find (otp_where email otp SIGNUP (now1 x)) (db_otps s) = Some r"
  have "signup_verify x body s =
          (if email = [] \<or> otp = [] then (JsonError ''Email and OTP are required'' 400, s)
           else (JsonError ''Too many attempts. Please request a new OTP.'' 400,
                 logged OtpFindFirst s))"
    using body limit found by (simp add: signup_verify_def otp_findFirst_def)
  then show "status (fst (signup_verify x body s)) = 400"
    "token_of (fst (signup_verify x body s)) = None"
    "db_users (snd (signup_verify x body s)) = db_users s"
    "db_sessions (snd (signup_verify x body s)) = db_sessions s"
    by simp_all
next
  assume found: "find (otp_where email otp SIGNIN (now1 x)) (db_otps s) = Some r"
  then have byid: "find (\<lambda>r'. otp_id r' = otp_id r) (db_otps s) \<noteq> None"
    using find_SomeD [OF found] by (auto simp: find_None_iff)
  have "signin_verify x body s =
          (if email = [] \<or> otp = [] then (JsonError ''Email and OTP are required'' 400, s)
           else case otp_user r s of
                  None \<Rightarrow> (JsonError ''Invalid or expired OTP'' 400,
                            snd (otp_update (otp_id r) (\<lambda>r. r\<lparr>otp_attempts := otp_attempts r + 1\<rparr>)
                                   (logged OtpFindFirst s)))
                | Some user \<Rightarrow> (JsonError ''Too many attempts. Please request a new OTP.'' 400,
                                 logged OtpFindFirst s))"
    using body limit found byid
    by (auto simp: signin_verify_def otp_findFirst_def otp_update_def split: option.splits)
  then show "status (fst (signin_verify x body s)) = 400"
    "token_of (fst (signin_verify x body s)) = None"
    "db_users (snd (signin_verify x body s)) = db_users s"
    "db_sessions (snd (signin_verify x body s)) = db_sessions s"
    by (auto simp: otp_update_def split: option.splits)
qed

theorem verify_attempt_limited_witness:
  "find (otp_where ''ann@x.io'' ''482913'' SIGNIN (now1 ext0))
        (db_otps (db1\<lparr>db_otps := [ann_otp\<lparr>otp_attempts := 5\<rparr>, cat_otp]\<rparr>))
     = Some (ann_otp\<lparr>otp_attempts := 5\<rparr>)
   \<and> status (fst (signin_verify ext0 (verify_body ''ann@x.io'' ''482913'')
                     (db1\<lparr>db_otps := [ann_otp\<lparr>otp_attempts := 5\<rparr>, cat_otp]\<rparr>))) = 400
   \<and> db_sessions (snd (signin_verify ext0 (verify_body ''ann@x.io'' ''482913'')
                     (db1\<lparr>db_otps := [ann_otp\<lparr>otp_attempts := 5\<rparr>, cat_otp]\<rparr>)))
       = [ann_session, bob_session]"
proof -
  let ?s = "db1\<lparr>db_otps := [ann_otp\<lparr>otp_attempts := 5\<rparr>, cat_otp]\<rparr>"
  have found: "find (otp_where ''ann@x.io'' ''482913'' SIGNIN (now1 ext0)) (db_otps ?s)
     = Some (ann_otp\<lparr>otp_attempts := 5\<rparr>)"
    by (simp add: otp_where_def normalize_def trim_def toLowerCase_def toLowerCase_char_def
          is_space_def world)
  have sess: "db_sessions ?s = [ann_session, bob_session]" by (simp add: db1_def db0_def)
  have att: "5 \<le> otp_attempts (ann_otp\<lparr>otp_attempts := 5\<rparr>)" by simp
  have d: "destructure (verify_body ''ann@x.io'' ''482913'')
            = Some (map_of [(''email'', JStr ''ann@x.io''), (''otp'', JStr ''482913'')])"
    by (simp add: verify_body_def)
  from found sess verify_attempt_limited [OF d _ _ att, of "''ann@x.io''" "''482913''" ext0 ?s]
  show ?thesis by simp
qed



section \<open>The sign-up transaction\<close>

lemma all_or_nothing_frame:
  "all_or_nothing s s"
  "all_or_nothing s (logged c s') = all_or_nothing s s'"
  "all_or_nothing s (snd (otp_findFirst P s')) = all_or_nothing s s'"
  "all_or_nothing s (snd (session_create r s')) = all_or_nothing s s'"
  by (simp_all add: all_or_nothing_def neither_written_def both_written_def orm_defs)

lemma all_or_nothing_transaction:
  "all_or_nothing s (snd (transaction (signup_verify_tx x sd i) (snd (otp_findFirst P s))))"
proof -
  let ?s1 = "snd (otp_findFirst P s)"
  have same: "db_users ?s1 = db_users s" "db_otps ?s1 = db_otps s"
    by (simp_all add: orm_defs)
  show ?thesis
  proof (cases "fst (transaction (signup_verify_tx x sd i) ?s1)")
    case (Inl e)
    with transaction_all_or_nothing [of x sd i ?s1 e] same show ?thesis
      by (simp add: all_or_nothing_def neither_written_def)
  next
    case (Inr u)
    with transaction_all_or_nothing [of x sd i ?s1 _ u] same
    have "both_written u i s (snd (transaction (signup_verify_tx x sd i) ?s1))"
      by (simp add: both_written_def)
    then show ?thesis unfolding all_or_nothing_def by blast
  qed
qed

lemma signup_verify_all_or_nothing: "all_or_nothing s (snd (signup_verify x body s))"
  by (simp add: signup_verify_def Let_def split_beta all_or_nothing_frame
        all_or_nothing_transaction split: option.split sum.split)

lemma signup_verify_ok_written:
  assumes "status (fst (signup_verify x body s)) = 200"
  shows "\<exists>u i. both_written u i s (snd (signup_verify x body s))"
proof -
  have "\<exists>sd i P u. fst (transaction (signup_verify_tx x sd i) (snd (otp_findFirst P s))) = Inr u
          \<and> snd (signup_verify x body s)
              = snd (session_create (new_session x (user_id u) (generateToken x (user_id u))
                       (now2 x + 30 * 24 * 60 * 60 * 1000))
                     (snd (transaction (signup_verify_tx x sd i) (snd (otp_findFirst P s)))))"
    using assms
    by (simp add: signup_verify_def Let_def split_beta
          split: option.split_asm sum.split_asm if_split_asm) blast
  then obtain sd i P u where
    ok: "fst (transaction (signup_verify_tx x sd i) (snd (otp_findFirst P s))) = Inr u"
    and st: "snd (signup_verify x body s)
              = snd (session_create (new_session x (user_id u) (generateToken x (user_id u))
                       (now2 x + 30 * 24 * 60 * 60 * 1000))
                     (snd (transaction (signup_verify_tx x sd i) (snd (otp_findFirst P s)))))"
    by blast
  from transaction_all_or_nothing [of x sd i "snd (otp_findFirst P s)" _ u] ok
  have "both_written u i s (snd (transaction (signup_verify_tx x sd i) (snd (otp_findFirst P s))))"
    by (simp add: both_written_def orm_defs)
  then have "both_written u i s (snd (signup_verify x body s))"
    by (simp add: st both_written_def orm_defs)
  then show ?thesis by blast
qed

text \<open>
  C4: the two writes of sign-up verification, the new user row and the update that marks
  the code verified, run in one transaction. When its body fails at either write, the
  users and codes tables after the transaction are what they were before it; when it
  returns a user, both writes are there. Hence every \<^verbatim>\<open>POST /api/signup/verify\<close> leaves
  both writes or neither, and an answer with status 200 leaves both.
\<close>

theorem signup_verify_transactional:
  "(fst (transaction (signup_verify_tx x sd i) s) = Inl e \<longrightarrow>
      neither_written s (snd (transaction (signup_verify_tx x sd i) s)))
   \<and> (fst (transaction (signup_verify_tx x sd i) s) = Inr u \<longrightarrow>
      both_written u i s (snd (transaction (signup_verify_tx x sd i) s)))
   \<and> all_or_nothing s (snd (signup_verify x body s))
   \<and> (status (fst (signup_verify x body s)) = 200 \<longrightarrow>
        (\<exists>u' i'. both_written u' i' s (snd (signup_verify x body s))))"
  using transaction_all_or_nothing [of x sd i s e u] signup_verify_all_or_nothing [of s x body]
    signup_verify_ok_written [of x body s]
  by blast


theorem signup_verify_transactional_witness:
  "fst (transaction (signup_verify_tx ext0 cat_data ''missing'') db1)
     = Inl (PrismaError ''P2025'')
   \<and> map user_email
        (db_users (snd (signup_verify_tx ext0 cat_data ''missing'' db1)))
       = [''ann@x.io'', ''bob@x.io'', ''cat@x.io'']
   \<and> neither_written db1
        (snd (transaction (signup_verify_tx ext0 cat_data ''missing'') db1))
   \<and> status (fst (signup_verify ext0 (verify_body ''cat@x.io'' ''135790'') db1)) = 200
   \<and> map user_email (db_users (snd (signup_verify ext0 (verify_body ''cat@x.io'' ''135790'') db1)))
       = [''ann@x.io'', ''bob@x.io'', ''cat@x.io'']
   \<and> map otp_verified (db_otps (snd (signup_verify ext0 (verify_body ''cat@x.io'' ''135790'') db1)))
       = [False, True]"
proof -
  let ?sd = cat_data
  have body: "signup_verify_tx ext0 ?sd ''missing'' (db1\<lparr>orm_log := []\<rparr>)
      = (Inl (PrismaError ''P2025''),
         db1\<lparr>db_users := [ann, bob, \<lparr>user_id = ''id-a'', user_email = ''cat@x.io'',
                 user_name = ''Cat'', user_dateOfBirth = 0, user_verified = True,
                 user_isActive = True\<rparr>], orm_log := [UserCreate, OtpUpdate]\<rparr>)"
    by (simp add: signup_verify_tx_def orm_defs world)
  have inside: "map user_email (db_users (snd (signup_verify_tx ext0 ?sd ''missing'' db1)))
       = [''ann@x.io'', ''bob@x.io'', ''cat@x.io'']"
    by (simp add: signup_verify_tx_def orm_defs world)
  have failed: "fst (transaction (signup_verify_tx ext0 ?sd ''missing'') db1)
     = Inl (PrismaError ''P2025'')"
    by (simp add: transaction_def body)
  have ok: "status (fst (signup_verify ext0 (verify_body ''cat@x.io'' ''135790'') db1)) = 200"
    by (simp add: signup_verify_def signup_verify_tx_def transaction_def otp_where_def
          new_session_def generateToken_def Let_def orm_defs strings world)
  have after: "map user_email (db_users (snd (signup_verify ext0 (verify_body ''cat@x.io'' ''135790'') db1)))
       = [''ann@x.io'', ''bob@x.io'', ''cat@x.io'']
     \<and> map otp_verified (db_otps (snd (signup_verify ext0 (verify_body ''cat@x.io'' ''135790'') db1)))
       = [False, True]"
    by (simp add: signup_verify_def signup_verify_tx_def transaction_def otp_where_def
          new_session_def generateToken_def Let_def orm_defs strings world)
  from signup_verify_transactional [of ext0 ?sd "''missing''" db1 "PrismaError ''P2025''" _
      "verify_body ''cat@x.io'' ''135790''"] failed inside ok after
  show ?thesis by simp
qed



section \<open>Sessions\<close>

text \<open>
  C7 (as amended): every \<^verbatim>\<open>POST /api/signin/verify\<close> answered with status 200 has
  matched a code whose user exists, has appended exactly one row to the sessions table,
  for that user and active, and answers with that row's token; the row expires 30 days
  after the handler's clock reading when \<^verbatim>\<open>keepLoggedIn\<close> is truthy (\<^verbatim>\<open>true\<close>, a number
  other than 0, a non-empty string, an array or an object) and 24 hours after it
  otherwise (absent, \<^verbatim>\<open>false\<close>, \<^verbatim>\<open>null\<close>, 0 or the empty string).
\<close>

theorem signin_issues_one_session:
  assumes ok: "status (fst (signin_verify x body s)) = 200"
  shows "\<exists>f email otp r user sess.
           destructure body = Some f
         \<and> f ''email'' = Some (JStr email) \<and> f ''otp'' = Some (JStr otp)
         \<and> find (otp_where email otp SIGNIN (now1 x)) (db_otps s) = Some r
         \<and> otp_user r s = Some user
         \<and> db_sessions (snd (signin_verify x body s)) = db_sessions s @ [sess]
         \<and> session_userId sess = user_id user
         \<and> session_isActive sess
         \<and> token_of (fst (signin_verify x body s)) = Some (session_token sess)
         \<and> session_expiresAt sess =
             (if truthy (f ''keepLoggedIn'') then now2 x + 30 * 24 * 60 * 60 * 1000
              else now2 x + 24 * 60 * 60 * 1000)"
proof -
  from ok obtain f where f: "destructure body = Some f"
    by (cases "destructure body") (auto simp: signin_verify_def)
  from ok f have tr: "truthy (f ''email'')" "truthy (f ''otp'')"
    by (auto simp: signin_verify_def split: if_splits)
  from ok f tr obtain email otp where eo: "f ''email'' = Some (JStr email)" "f ''otp'' = Some (JStr otp)"
    by (auto simp: signin_verify_def str_of_Some split: option.splits)
  from ok f tr eo obtain r where r: "find (otp_where email otp SIGNIN (now1 x)) (db_otps s) = Some r"
    by (cases "find (otp_where email otp SIGNIN (now1 x)) (db_otps s)")
       (auto simp: signin_verify_def otp_findFirst_def)
  from ok f tr eo r obtain user where user: "otp_user r s = Some user"
    by (cases "otp_user r s")
       (auto simp: signin_verify_def otp_findFirst_def split: prod.splits sum.splits)
  define s1 where "s1 = logged OtpFindFirst s"
  obtain res s2 where upd: "otp_update (otp_id r) (\<lambda>r. r\<lparr>otp_verified := True\<rparr>) s1 = (res, s2)"
    by (cases "otp_update (otp_id r) (\<lambda>r. r\<lparr>otp_verified := True\<rparr>) s1") auto
  define sess where "sess = new_session x (user_id user) (generateToken x (user_id user))
      (if truthy (f ''keepLoggedIn'') then now2 x + 30 * 24 * 60 * 60 * 1000
       else now2 x + 24 * 60 * 60 * 1000)"
  obtain res' s3 where cr: "session_create sess s2 = (res', s3)"
    by (cases "session_create sess s2") auto
  from ok f tr eo r user upd cr
  have out: "res' = Inr sess" "signin_verify x body s =
      (Authenticated ''Signed in successfully'' (view_of user) (generateToken x (user_id user)), s3)"
    by (auto simp: signin_verify_def otp_findFirst_def s1_def sess_def Let_def session_create_def
             split: sum.splits if_splits)
  from cr out(1) have "db_sessions s3 = db_sessions s2 @ [sess]"
    by (auto simp: session_create_def split: if_splits)
  moreover from otp_update_tables [OF upd] have "db_sessions s2 = db_sessions s"
    by (simp add: s1_def)
  ultimately have "db_sessions (snd (signin_verify x body s)) = db_sessions s @ [sess]"
    by (simp add: out)
  moreover have "session_userId sess = user_id user" "session_isActive sess"
    "token_of (fst (signin_verify x body s)) = Some (session_token sess)"
    "session_expiresAt sess =
             (if truthy (f ''keepLoggedIn'') then now2 x + 30 * 24 * 60 * 60 * 1000
              else now2 x + 24 * 60 * 60 * 1000)"
    by (simp_all add: sess_def new_session_def out)
  ultimately show ?thesis using f eo r user by blast
qed



theorem signin_issues_one_session_witness:
  "status (fst (signin_verify ext0
      (Some (JObj [(''email'', JStr '' Ann@X.io''), (''otp'', JStr ''482913''),
                   (''keepLoggedIn'', JBool True)])) db1)) = 200
   \<and> token_of (fst (signin_verify ext0
      (Some (JObj [(''email'', JStr '' Ann@X.io''), (''otp'', JStr ''482913''),
                   (''keepLoggedIn'', JBool True)])) db1)) = Some ''jwt-u1.1000''
   \<and> map session_expiresAt (db_sessions (snd (signin_verify ext0
      (Some (JObj [(''email'', JStr '' Ann@X.io''), (''otp'', JStr ''482913''),
                   (''keepLoggedIn'', JBool True)])) db1))) = [5000, 5000, 2592001001]"
proof -
  let ?body = "Some (JObj [(''email'', JStr '' Ann@X.io''), (''otp'', JStr ''482913''),
                   (''keepLoggedIn'', JBool True)])"
  have run: "fst (signin_verify ext0 ?body db1) =
      Authenticated ''Signed in successfully'' (view_of ann) ''jwt-u1.1000''"
    by (simp add: signin_verify_def otp_findFirst_def otp_where_def otp_user_def otp_update_def
          session_create_def new_session_def generateToken_def user_exists_def logged_def
          Let_def strings world)
  then have ok: "status (fst (signin_verify ext0 ?body db1)) = 200"
    by simp
  have old: "map session_expiresAt (db_sessions db1) = [5000, 5000]"
    by (simp add: world)
  from signin_issues_one_session [OF ok] old ok run show ?thesis
    by (auto simp: ext0_def)
qed

text \<open>
  C7 as stated fails: the handler tests \<^verbatim>\<open>keepLoggedIn ? ... : ...\<close>, so a value that is
  not \<^verbatim>\<open>true\<close> but truthy takes the first branch. Ann signs in with \<^verbatim>\<open>keepLoggedIn\<close> set
  to the string \<^verbatim>\<open>"false"\<close>; the new session expires 30 days after the clock reading 1001,
  not 24 hours after it.
\<close>

theorem keepLoggedIn_string_counterexample:
  "status (fst (signin_verify ext0
      (Some (JObj [(''email'', JStr ''ann@x.io''), (''otp'', JStr ''482913''),
                   (''keepLoggedIn'', JStr ''false'')])) db1)) = 200
   \<and> map session_expiresAt (db_sessions (snd (signin_verify ext0
      (Some (JObj [(''email'', JStr ''ann@x.io''), (''otp'', JStr ''482913''),
                   (''keepLoggedIn'', JStr ''false'')])) db1))) = [5000, 5000, 2592001001]
   \<and> now2 ext0 + 30 * 24 * 60 * 60 * 1000 = 2592001001
   \<and> now2 ext0 + 24 * 60 * 60 * 1000 = 86401001"
  by (simp add: signin_verify_def otp_where_def otp_user_def new_session_def
        generateToken_def Let_def orm_defs strings world)



section \<open>Logout\<close>

lemma dead_logged [simp]: "token_dead T (logged c s) = token_dead T s"
  by (simp add: token_dead_def token_rows_def)

lemma dead_frame:
  "token_dead T (otp_deleteMany P s) = token_dead T s"
  "token_dead T (cleanupExpiredOtps t s) = token_dead T s"
  "token_dead T (snd (user_findUnique e s)) = token_dead T s"
  "token_dead T (snd (user_create u s)) = token_dead T s"
  "token_dead T (snd (otp_create rr s)) = token_dead T s"
  "token_dead T (snd (otp_findFirst P s)) = token_dead T s"
  "token_dead T (snd (otp_update i f s)) = token_dead T s"
  "token_dead T (snd (session_findFirst Q s)) = token_dead T s"
  "token_dead T (snd (note_findMany uid s)) = token_dead T s"
  "token_dead T (snd (note_create n s)) = token_dead T s"
  "token_dead T (snd (note_findFirst N s)) = token_dead T s"
  "token_dead T (snd (note_update i g s)) = token_dead T s"
  "token_dead T (snd (note_delete i s)) = token_dead T s"
  by (simp_all add: token_dead_def token_rows_def orm_defs split: option.split)

lemma dead_create: "token_dead T s \<Longrightarrow> token_dead T (snd (session_create r s))"
  by (auto simp: token_dead_def token_rows_def session_create_def logged_def filter_empty_conv)

lemma rows_deactivated:
  "filter (\<lambda>r. session_token r = T)
     (map (\<lambda>r. if P r then r\<lparr>session_isActive := False\<rparr> else r) xs)
   = map (\<lambda>r. if P r then r\<lparr>session_isActive := False\<rparr> else r)
       (filter (\<lambda>r. session_token r = T) xs)"
  by (induction xs) simp_all

lemma token_rows_updateMany:
  "token_rows T (session_updateMany P (\<lambda>r. r\<lparr>session_isActive := False\<rparr>) s)
     = map (\<lambda>r. if P r then r\<lparr>session_isActive := False\<rparr> else r) (token_rows T s)"
  by (simp add: token_rows_def session_updateMany_def logged_def rows_deactivated)

lemma dead_updateMany:
  "token_dead T s \<Longrightarrow>
     token_dead T (session_updateMany P (\<lambda>r. r\<lparr>session_isActive := False\<rparr>) s)"
  by (auto simp: token_dead_def token_rows_updateMany list_all_iff)

lemma dead_transaction:
  "token_dead T (snd (transaction (signup_verify_tx x sd i) s)) = token_dead T s"
proof -
  have "db_sessions (snd (signup_verify_tx x sd i t)) = db_sessions t" for t
    by (simp add: signup_verify_tx_def split_beta orm_defs split: option.split sum.split)
  from this [of "s\<lparr>orm_log := []\<rparr>"] show ?thesis
    by (simp add: transaction_def split_beta token_dead_def token_rows_def split: sum.split)
qed

lemmas dead = dead_frame dead_create dead_updateMany dead_transaction

lemma signup_dead: "token_dead T s \<Longrightarrow> token_dead T (snd (signup x body s))"
  by (simp add: signup_def Let_def split_beta dead split: option.split sum.split)

lemma signup_verify_dead: "token_dead T s \<Longrightarrow> token_dead T (snd (signup_verify x body s))"
  by (simp add: signup_verify_def Let_def split_beta dead split: option.split sum.split)

lemma signin_with_dead: "token_dead T s \<Longrightarrow> token_dead T (snd (signin_with a b x body s))"
  by (simp add: signin_with_def Let_def split_beta dead split: option.split sum.split)

lemma signin_verify_dead: "token_dead T s \<Longrightarrow> token_dead T (snd (signin_verify x body s))"
  by (simp add: signin_verify_def Let_def split_beta dead split: option.split sum.split)

lemma logout_dead: "token_dead T s \<Longrightarrow> token_dead T (snd (logout x body s))"
  by (simp add: logout_def dead split: option.split json.split)

lemma notes_get_dead: "token_dead T s \<Longrightarrow> token_dead T (snd (notes_get x h s))"
  unfolding notes_get_def split_beta
  by (rule auth_cases) (simp_all add: dead split: sum.split)

lemma notes_post_dead: "token_dead T s \<Longrightarrow> token_dead T (snd (notes_post x h body s))"
  unfolding notes_post_def split_beta Let_def
  by (rule auth_cases) (simp_all add: dead split: sum.split option.split)

lemma notes_put_dead: "token_dead T s \<Longrightarrow> token_dead T (snd (notes_put x h i body s))"
  unfolding notes_put_def split_beta Let_def
  by (rule auth_cases) (simp_all add: dead split: sum.split option.split)

lemma notes_delete_dead: "token_dead T s \<Longrightarrow> token_dead T (snd (notes_delete x h i s))"
  unfolding notes_delete_def split_beta
  by (rule auth_cases) (simp_all add: dead split: sum.split option.split)

lemma api_dead: "token_dead T s \<Longrightarrow> token_dead T (snd (api q x s))"
  by (cases q)
     (simp_all add: signup_dead signup_verify_dead signin_def signin_resend_def
        signin_with_dead signin_verify_dead logout_dead notes_get_dead
        notes_post_dead notes_put_dead notes_delete_dead health_def)

lemma run_dead: "token_dead T s \<Longrightarrow> token_dead T (run reqs s)"
  by (induction reqs arbitrary: s) (auto simp: api_dead)

text \<open>The guard answers 401 whenever it answers, and it answers when the token's rows are inactive.\<close>

lemma auth_rejects:
  assumes "list_all (\<lambda>r. \<not> session_isActive r) (token_rows T s)"
  shows "\<exists>m. fst (authMiddleware x (Some (''Bearer '' @ T)) s) = Inl (JsonError m 401)"
proof -
  have "find (\<lambda>r. session_token r = T \<and> session_isActive r \<and> session_expiresAt r > now1 x)
          (db_sessions s) = None"
    using assms by (auto simp: find_None_iff token_rows_def list_all_iff)
  then show ?thesis
    by (simp add: authMiddleware_def session_findFirst_def split: option.split)
qed

lemma bears_rejected:
  assumes dead: "list_all (\<lambda>r. \<not> session_isActive r) (token_rows T s)" and q: "bears T q"
  shows "status (fst (api q x s)) = 401"
proof -
  from auth_rejects [OF dead, of x] obtain m where
    m: "fst (authMiddleware x (Some (''Bearer '' @ T)) s) = Inl (JsonError m 401)" by blast
  from q m show ?thesis
    by (cases q)
       (simp_all add: notes_get_def notes_post_def notes_put_def notes_delete_def split_beta)
qed


lemma others_kept:
  "filter (\<lambda>r. session_token r \<noteq> T)
     (map (\<lambda>r. if session_token r = T then r\<lparr>session_isActive := False\<rparr> else r) xs)
   = filter (\<lambda>r. session_token r \<noteq> T) xs"
  by (induction xs) simp_all

lemma rows_killed:
  "filter (\<lambda>r. session_token r = T)
     (map (\<lambda>r. if session_token r = T then r\<lparr>session_isActive := False\<rparr> else r) xs)
   = map (\<lambda>r. r\<lparr>session_isActive := False\<rparr>) (filter (\<lambda>r. session_token r = T) xs)"
  by (induction xs) simp_all

text \<open>
  C5: \<^verbatim>\<open>POST /api/logout\<close> with a non-empty token string answers 200 and sets
  \<open>isActive\<close> to false on exactly the session rows of that token, leaving the rows of
  every other token as they were. Every notes request that bears the token is then
  answered 401 by the guard; and when the token had a session row, this stays so after
  any sequence of further requests, since no route deletes or re-activates a session and
  the token column is unique.
\<close>

theorem logout_kills_token:
  assumes body: "destructure body = Some f" "f ''token'' = Some (JStr T)" "T \<noteq> []"
  shows "fst (logout x body s) = Message ''Logged out successfully''
   \<and> token_rows T (snd (logout x body s))
       = map (\<lambda>r. r\<lparr>session_isActive := False\<rparr>) (token_rows T s)
   \<and> filter (\<lambda>r. session_token r \<noteq> T) (db_sessions (snd (logout x body s)))
       = filter (\<lambda>r. session_token r \<noteq> T) (db_sessions s)
   \<and> (bears T q \<longrightarrow> status (fst (api q x' (snd (logout x body s)))) = 401)
   \<and> (bears T q \<and> token_rows T s \<noteq> [] \<longrightarrow>
        status (fst (api q x' (run reqs (snd (logout x body s))))) = 401)"
proof -
  let ?s' = "snd (logout x body s)"
  have out: "logout x body s = (Message ''Logged out successfully'',
      session_updateMany (\<lambda>r. session_token r = T) (\<lambda>r. r\<lparr>session_isActive := False\<rparr>) s)"
    using body by (simp add: logout_def)
  have rows: "token_rows T ?s' = map (\<lambda>r. r\<lparr>session_isActive := False\<rparr>) (token_rows T s)"
    by (simp add: out token_rows_def session_updateMany_def logged_def rows_killed)
  have others: "filter (\<lambda>r. session_token r \<noteq> T) (db_sessions ?s')
       = filter (\<lambda>r. session_token r \<noteq> T) (db_sessions s)"
    by (simp add: out session_updateMany_def logged_def others_kept)
  have inactive: "list_all (\<lambda>r. \<not> session_isActive r) (token_rows T ?s')"
    by (simp add: rows list_all_iff)
  have now: "status (fst (api q x' ?s')) = 401" if "bears T q"
    using bears_rejected [OF inactive that] .
  have later: "status (fst (api q x' (run reqs ?s'))) = 401"
    if q: "bears T q" and ex: "token_rows T s \<noteq> []"
  proof -
    from ex inactive have "token_dead T ?s'" by (simp add: token_dead_def rows)
    then have "token_dead T (run reqs ?s')" by (rule run_dead)
    then have "list_all (\<lambda>r. \<not> session_isActive r) (token_rows T (run reqs ?s'))"
      by (simp add: token_dead_def)
    from bears_rejected [OF this q] show ?thesis .
  qed
  from out rows others now later show ?thesis by simp
qed


theorem logout_kills_token_witness:
  "fst (api (GetNotes (Some ''Bearer jwt-u1'')) ext0 db0) = NotesList [ann_note]
   \<and> fst (logout ext0 (logout_body ''jwt-u1'') db0) = Message ''Logged out successfully''
   \<and> map session_isActive (db_sessions (snd (logout ext0 (logout_body ''jwt-u1'') db0)))
       = [False, True]
   \<and> status (fst (api (GetNotes (Some ''Bearer jwt-u1'')) ext0
                (run [(PostSignin (Some (JObj [(''email'', JStr ''ann@x.io'')])), ext0),
                      (GetNotes (Some ''Bearer jwt-u2''), ext0)]
                   (snd (logout ext0 (logout_body ''jwt-u1'') db0))))) = 401
   \<and> fst (api (GetNotes (Some ''Bearer jwt-u2'')) ext0 (snd (logout ext0 (logout_body ''jwt-u1'') db0)))
       = NotesList [bob_note]"
proof -
  have before: "fst (api (GetNotes (Some ''Bearer jwt-u1'')) ext0 db0) = NotesList [ann_note]"
    by (simp add: notes_get_def auth0 note_findMany_def) (simp add: world)
  have d: "destructure (logout_body ''jwt-u1'') = Some (map_of [(''token'', JStr ''jwt-u1'')])"
    by (simp add: logout_body_def)
  have rows: "token_rows ''jwt-u1'' db0 \<noteq> []"
    by (simp add: token_rows_def world)
  have flags: "map session_isActive (db_sessions (snd (logout ext0 (logout_body ''jwt-u1'') db0)))
       = [False, True]"
    by (simp add: logout_def logout_body_def session_updateMany_def logged_def world)
  have bob_in: "fst (api (GetNotes (Some ''Bearer jwt-u2'')) ext0
                  (snd (logout ext0 (logout_body ''jwt-u1'') db0))) = NotesList [bob_note]"
    by (simp add: logout_def logout_body_def session_updateMany_def logged_def notes_get_def
          authMiddleware_def verifyToken_def session_findFirst_def note_findMany_def world)
  from logout_kills_token [OF d, of "''jwt-u1''" ext0 db0 "GetNotes (Some ''Bearer jwt-u1'')" ext0
      "[(PostSignin (Some (JObj [(''email'', JStr ''ann@x.io'')])), ext0),
        (GetNotes (Some ''Bearer jwt-u2''), ext0)]"]
    rows before flags bob_in
  show ?thesis by simp
qed



section \<open>ORM calls per request\<close>

lemma count_append [simp]:
  "count_plain (xs @ ys) = count_plain xs + count_plain ys"
  "count_transactions (xs @ ys) = count_transactions xs + count_transactions ys"
  by (induction xs) simp_all

lemma withinD:
  "within p t s s' \<Longrightarrow> plain_calls s s' \<le> p \<and> transactions s s' \<le> t"
  by (auto simp: within_def plain_calls_def transactions_def issued_def)

lemma within_auth:
  "within p t (logged SessionFindFirst s) s' \<Longrightarrow> within p t s s' \<Longrightarrow>
     within p t (snd (authMiddleware x h s)) s'"
  using authMiddleware_state [of x h s "fst (authMiddleware x h s)" "snd (authMiddleware x h s)"]
  by auto

lemma signup_within: "within 4 0 s (snd (signup x body s))"
  by (simp add: within_def signup_def Let_def split_beta log_calls
      split: option.split sum.split)

lemma signin_with_within: "within 4 0 s (snd (signin_with a b x body s))"
  by (simp add: within_def signin_with_def Let_def split_beta log_calls
      split: option.split sum.split)

lemma signin_verify_within: "within 3 0 s (snd (signin_verify x body s))"
  by (simp add: within_def signin_verify_def Let_def split_beta log_calls
      split: option.split sum.split)

lemma logout_within: "within (Suc 0) 0 s (snd (logout x body s))"
  by (simp add: within_def logout_def split: option.split json.split)

lemma signup_verify_within: "within 2 (Suc 0) s (snd (signup_verify x body s))"
  by (simp add: within_def signup_verify_def Let_def split_beta log_calls
      split: option.split sum.split)

lemma notes_get_within: "within 2 0 s (snd (notes_get x h s))"
  unfolding notes_get_def split_beta
  by (rule auth_cases) (simp_all add: within_def log_calls split: sum.split)


lemma notes_post_within: "within 2 0 s (snd (notes_post x h body s))"
  unfolding notes_post_def split_beta Let_def
  by (rule auth_cases) (simp_all add: within_def log_calls split: sum.split option.split)

lemma notes_put_within: "within 3 0 s (snd (notes_put x h i body s))"
  unfolding notes_put_def split_beta Let_def
  by (rule auth_cases) (simp_all add: within_def log_calls split: sum.split option.split)

lemma notes_delete_within: "within 3 0 s (snd (notes_delete x h i s))"
  unfolding notes_delete_def split_beta
  by (rule auth_cases) (simp_all add: within_def log_calls split: sum.split option.split)

lemma api_within: "within (call_budget q) (transaction_budget q) s (snd (api q x s))"
proof (cases q)
  case (PostSignin body)
  then show ?thesis by (simp add: signin_def signin_with_within)
next
  case (PostSigninResend body)
  then show ?thesis by (simp add: signin_resend_def signin_with_within)
next
  case GetHealth
  then show ?thesis by (simp add: health_def within_def)
qed (simp_all add: signup_within signup_verify_within signin_verify_within logout_within
       notes_get_within notes_post_within notes_put_within notes_delete_within)

text \<open>
  C8 (as amended): every request is served by a short sequence of ORM calls appended to
  the log: at most \<open>call_budget\<close> calls outside a transaction, which is never more than
  four, and at most one transaction, which only sign-up verification opens.
\<close>

theorem orm_calls_bounded:
  "plain_calls s (snd (api q x s)) \<le> call_budget q
   \<and> call_budget q \<le> 4
   \<and> transactions s (snd (api q x s)) \<le> transaction_budget q
   \<and> transaction_budget q \<le> 1"
proof -
  have "call_budget q \<le> 4" "transaction_budget q \<le> 1" by (cases q; simp)+
  with withinD [OF api_within [of q s x]] show ?thesis by simp
qed

text \<open>
  C8 as stated fails: one \<^verbatim>\<open>POST /api/signup\<close> for a new address issues four ORM calls,
  none of them in a transaction.
\<close>

theorem signup_four_calls_counterexample:
  "issued db0 (snd (api (PostSignup (signup_body ''Cat'' ''cat@x.io'' ''2000-01-01'')) ext0 db0))
     = [OtpDeleteMany, UserFindUnique, OtpDeleteMany, OtpCreate]
   \<and> plain_calls db0
        (snd (api (PostSignup (signup_body ''Cat'' ''cat@x.io'' ''2000-01-01'')) ext0 db0)) = 4
   \<and> transactions db0
        (snd (api (PostSignup (signup_body ''Cat'' ''cat@x.io'' ''2000-01-01'')) ext0 db0)) = 0"
proof -
  have "orm_log (snd (signup ext0 (signup_body ''Cat'' ''cat@x.io'' ''2000-01-01'') db0))
          = [OtpDeleteMany, UserFindUnique, OtpDeleteMany, OtpCreate]"
    by (simp add: signup_def signup_body_def Let_def orm_defs strings world)
  then show ?thesis
    by (simp add: plain_calls_def transactions_def issued_def db0_def)
qed

theorem orm_calls_bounded_witness:
  "plain_calls db0
     (snd (api (PostSignup (signup_body ''Cat'' ''cat@x.io'' ''2000-01-01'')) ext0 db0)) \<le> 4
   \<and> transactions db0
     (snd (api (PostSignup (signup_body ''Cat'' ''cat@x.io'' ''2000-01-01'')) ext0 db0)) = 0"
  using orm_calls_bounded [of db0 "PostSignup (signup_body ''Cat'' ''cat@x.io'' ''2000-01-01'')" ext0]
  by simp



section \<open>One code per e-mail and type\<close>

lemma unique_logged [simp]: "otp_unique (logged c s) = otp_unique s"
  by (simp add: otp_unique_def)

lemma unique_deleteMany: "otp_unique s \<Longrightarrow> otp_unique (otp_deleteMany P s)"
  by (simp add: otp_unique_def otp_deleteMany_def distinct_map_filter)

lemma unique_cleanup: "otp_unique s \<Longrightarrow> otp_unique (cleanupExpiredOtps t s)"
  by (simp add: cleanupExpiredOtps_def unique_deleteMany)

lemma unique_frame:
  "otp_unique (snd (user_findUnique e s)) = otp_unique s"
  "otp_unique (snd (user_create u s)) = otp_unique s"
  "otp_unique (snd (otp_findFirst P s)) = otp_unique s"
  "otp_unique (snd (session_findFirst Q s)) = otp_unique s"
  "otp_unique (snd (session_create r s)) = otp_unique s"
  "otp_unique (session_updateMany Q g s) = otp_unique s"
  "otp_unique (snd (note_findMany uid s)) = otp_unique s"
  "otp_unique (snd (note_create n s)) = otp_unique s"
  "otp_unique (snd (note_findFirst N s)) = otp_unique s"
  "otp_unique (snd (note_update i f s)) = otp_unique s"
  "otp_unique (snd (note_delete i s)) = otp_unique s"
  by (simp_all add: otp_unique_def orm_defs split: option.split)

lemma unique_update:
  "(\<And>r. otp_key (f r) = otp_key r) \<Longrightarrow> otp_unique (snd (otp_update i f s)) = otp_unique s"
  by (simp add: otp_unique_def otp_update_def logged_def comp_def if_distrib [of otp_key]
        cong: if_cong split: option.split)

lemma unique_issue:
  assumes "otp_unique s" "otp_email r = e" "otp_type r = t"
  shows "otp_unique (snd (otp_create r (otp_deleteMany (\<lambda>r'. otp_email r' = e \<and> otp_type r' = t) s)))"
  using assms
  by (auto simp: otp_unique_def otp_create_def otp_deleteMany_def logged_def otp_key_def
        distinct_map_filter)

lemma unique_transaction:
  "otp_unique (snd (transaction (signup_verify_tx x sd i) s)) = otp_unique s"
proof -
  have "otp_unique (snd (signup_verify_tx x sd i t)) = otp_unique t" for t
    by (simp add: signup_verify_tx_def split_beta unique_frame unique_update otp_key_def
          split: option.split sum.split)
  from this [of "s\<lparr>orm_log := []\<rparr>"] show ?thesis
    by (simp add: transaction_def split_beta otp_unique_def split: sum.split)
qed

lemmas uniq = unique_deleteMany unique_cleanup unique_frame unique_update unique_issue
  unique_transaction otp_key_def




















section \<open>A code is used once\<close>

lemma spent_logged [simp]: "spent e t c (logged k s) = spent e t c s"
  by (simp add: spent_def)

lemma spent_frame:
  "spent e t c (snd (user_findUnique em s)) = spent e t c s"
  "spent e t c (snd (user_create u s)) = spent e t c s"
  "spent e t c (snd (otp_findFirst P s)) = spent e t c s"
  "spent e t c (snd (session_findFirst Q s)) = spent e t c s"
  "spent e t c (snd (session_create r s)) = spent e t c s"
  "spent e t c (session_updateMany Q g s) = spent e t c s"
  "spent e t c (snd (note_findMany uid s)) = spent e t c s"
  "spent e t c (snd (note_create n s)) = spent e t c s"
  "spent e t c (snd (note_findFirst N s)) = spent e t c s"
  "spent e t c (snd (note_update i f s)) = spent e t c s"
  "spent e t c (snd (note_delete i s)) = spent e t c s"
  by (simp_all add: spent_def orm_defs split: option.split)

lemma spent_deleteMany: "spent e t c s \<Longrightarrow> spent e t c (otp_deleteMany P s)"
  by (auto simp: spent_def otp_deleteMany_def logged_def list_all_iff)

lemma spent_cleanup: "spent e t c s \<Longrightarrow> spent e t c (cleanupExpiredOtps n s)"
  by (simp add: cleanupExpiredOtps_def spent_deleteMany)

lemma spent_create:
  "spent e t c s \<Longrightarrow> \<not> (otp_email r = e \<and> otp_type r = t \<and> otp_code r = c) \<Longrightarrow>
     spent e t c (snd (otp_create r s))"
  by (auto simp: spent_def otp_create_def logged_def)

lemma spent_update:
  assumes "spent e t c s"
    and "\<And>r. otp_email (f r) = otp_email r \<and> otp_type (f r) = otp_type r
              \<and> otp_code (f r) = otp_code r \<and> (otp_verified r \<longrightarrow> otp_verified (f r))"
  shows "spent e t c (snd (otp_update i f s))"
  using assms
  by (auto simp: spent_def otp_update_def logged_def list_all_iff split: option.split)

lemma spent_transaction:
  "spent e t c s \<Longrightarrow> spent e t c (snd (transaction (signup_verify_tx x sd i) s))"
proof -
  assume sp: "spent e t c s"
  then have "spent e t c (s\<lparr>orm_log := []\<rparr>)" by (simp add: spent_def)
  then have "spent e t c (snd (signup_verify_tx x sd i (s\<lparr>orm_log := []\<rparr>)))"
    by (simp add: signup_verify_tx_def split_beta spent_frame spent_update
          split: option.split sum.split)
  with sp show ?thesis
    by (simp add: transaction_def split_beta spent_def split: sum.split)
qed

lemmas spend = spent_frame spent_deleteMany spent_cleanup spent_create spent_update
  spent_transaction

lemma signup_spent:
  "spent e t c s \<Longrightarrow> \<not> reissues e t c (PostSignup body, x) \<Longrightarrow>
     spent e t c (snd (signup x body s))"
  by (simp add: signup_def Let_def split_beta spend email_of_def
        split: option.split sum.split)

lemma signin_with_spent:
  "spent e t c s \<Longrightarrow> \<not> reissues e t c (PostSignin body, x) \<Longrightarrow>
     spent e t c (snd (signin_with a b x body s))"
  by (simp add: signin_with_def Let_def split_beta spend email_of_def
        split: option.split sum.split)

lemma signup_verify_spent: "spent e t c s \<Longrightarrow> spent e t c (snd (signup_verify x body s))"
  by (simp add: signup_verify_def Let_def split_beta spend split: option.split sum.split)

lemma signin_verify_spent: "spent e t c s \<Longrightarrow> spent e t c (snd (signin_verify x body s))"
  by (simp add: signin_verify_def Let_def split_beta spend split: option.split sum.split)

lemma logout_spent: "spent e t c s \<Longrightarrow> spent e t c (snd (logout x body s))"
  by (simp add: logout_def spend split: option.split json.split)

lemma notes_get_spent: "spent e t c s \<Longrightarrow> spent e t c (snd (notes_get x h s))"
  unfolding notes_get_def split_beta
  by (rule auth_cases) (simp_all add: spend split: sum.split)

lemma notes_post_spent: "spent e t c s \<Longrightarrow> spent e t c (snd (notes_post x h body s))"
  unfolding notes_post_def split_beta Let_def
  by (rule auth_cases) (simp_all add: spend split: sum.split option.split)

lemma notes_put_spent: "spent e t c s \<Longrightarrow> spent e t c (snd (notes_put x h i body s))"
  unfolding notes_put_def split_beta Let_def
  by (rule auth_cases) (simp_all add: spend split: sum.split option.split)

lemma notes_delete_spent: "spent e t c s \<Longrightarrow> spent e t c (snd (notes_delete x h i s))"
  unfolding notes_delete_def split_beta
  by (rule auth_cases) (simp_all add: spend split: sum.split option.split)

lemma api_spent:
  "spent e t c s \<Longrightarrow> \<not> reissues e t c (q, x) \<Longrightarrow> spent e t c (snd (api q x s))"
  by (cases q)
     (simp_all add: signup_spent signup_verify_spent signin_def signin_resend_def
        signin_with_spent signin_verify_spent logout_spent notes_get_spent
        notes_post_spent notes_put_spent notes_delete_spent health_def)

lemma run_spent:
  "spent e t c s \<Longrightarrow> list_all (\<lambda>qx. \<not> reissues e t c qx) reqs \<Longrightarrow> spent e t c (run reqs s)"
  by (induction reqs arbitrary: s) (auto simp: api_spent)


text \<open>A spent code matches nothing, so the request is turned away before any write.\<close>

lemma spent_no_match:
  "spent (normalize email) t (trim otp) s \<Longrightarrow> find (otp_where email otp t now) (db_otps s) = None"
  by (auto simp: spent_def otp_where_def find_None_iff list_all_iff)

lemma key_ofD:
  assumes "key_of t body = Some (e, t', c)"
  obtains f email otp where "destructure body = Some f" "f ''email'' = Some (JStr email)"
    "f ''otp'' = Some (JStr otp)" "e = normalize email" "t' = t" "c = trim otp"
  using assms
  by (auto simp: key_of_def str_of_Some split: option.splits)

lemma spent_rejected:
  assumes sp: "spent e t c s" and key: "verify_key q = Some (e, t, c)"
  shows "status (fst (api q x s)) = 400
         \<and> db_users (snd (api q x s)) = db_users s \<and> db_otps (snd (api q x s)) = db_otps s
         \<and> db_sessions (snd (api q x s)) = db_sessions s"
proof (cases q)
  case (PostSignupVerify body)
  with key have k: "key_of SIGNUP body = Some (e, t, c)" by simp
  from k obtain f email otp where b: "destructure body = Some f" "f ''email'' = Some (JStr email)"
    "f ''otp'' = Some (JStr otp)" "e = normalize email" "t = SIGNUP" "c = trim otp"
    by (rule key_ofD)
  from sp b have "find (otp_where email otp SIGNUP (now1 x)) (db_otps s) = None"
    by (simp add: spent_no_match)
  with b PostSignupVerify show ?thesis
    by (simp add: signup_verify_def otp_findFirst_def)
next
  case (PostSigninVerify body)
  with key have k: "key_of SIGNIN body = Some (e, t, c)" by simp
  from k obtain f email otp where b: "destructure body = Some f" "f ''email'' = Some (JStr email)"
    "f ''otp'' = Some (JStr otp)" "e = normalize email" "t = SIGNIN" "c = trim otp"
    by (rule key_ofD)
  from sp b have "find (otp_where email otp SIGNIN (now1 x)) (db_otps s) = None"
    by (simp add: spent_no_match)
  with b PostSigninVerify show ?thesis
    by (simp add: signin_verify_def otp_findFirst_def)
qed (use key in simp_all)

text \<open>A successful verification marks the one row of its e-mail and type.\<close>

lemma marked_spent:
  assumes uniq: "distinct (map otp_key xs)" and r: "r \<in> set xs"
    and key: "otp_email r = e" "otp_type r = t"
    and f: "\<And>r'. otp_verified (f r') \<and> otp_email (f r') = otp_email r'
                 \<and> otp_type (f r') = otp_type r'"
  shows "list_all otp_verified
           (filter (\<lambda>r. otp_email r = e \<and> otp_type r = t \<and> otp_code r = c)
              (map (\<lambda>r'. if otp_id r' = otp_id r then f r' else r') xs))"
proof -
  have "r' = r" if "r' \<in> set xs" "otp_email r' = e" "otp_type r' = t" for r'
  proof -
    from uniq have "inj_on otp_key (set xs)" by (simp add: distinct_map)
    moreover from that key have "otp_key r' = otp_key r" by (simp add: otp_key_def)
    ultimately show ?thesis using that(1) r by (auto dest: inj_onD)
  qed
  then show ?thesis using f by (auto simp: list_all_iff)
qed


lemma otps_session_create [simp]: "db_otps (snd (session_create r s)) = db_otps s"
  by (simp add: orm_defs)

lemma otp_update_found:
  assumes "r \<in> set (db_otps s)" and "\<And>r'. otp_userId (f r') = otp_userId r'"
  shows "otp_update (otp_id r) f s =
           (Inr (), logged OtpUpdate
              (s\<lparr>db_otps := map (\<lambda>r'. if otp_id r' = otp_id r then f r' else r') (db_otps s)\<rparr>))"
proof -
  from assms(1) have "find (\<lambda>r'. otp_id r' = otp_id r) (db_otps s) \<noteq> None"
    by (auto simp: find_None_iff)
  then show ?thesis using assms(2) by (auto simp: otp_update_def)
qed

lemma signin_verify_ok_spent:
  assumes uniq: "otp_unique s" and key: "key_of SIGNIN body = Some (e, t, c)"
    and ok: "status (fst (signin_verify x body s)) = 200"
  shows "spent e t c (snd (signin_verify x body s))"
proof -
  from key obtain f email otp where b: "destructure body = Some f" "f ''email'' = Some (JStr email)"
    "f ''otp'' = Some (JStr otp)" "e = normalize email" "t = SIGNIN" "c = trim otp"
    by (rule key_ofD)
  from ok b have tr: "email \<noteq> []" "otp \<noteq> []"
    by (auto simp: signin_verify_def split: if_splits)
  from ok b tr obtain r where r: "find (otp_where email otp SIGNIN (now1 x)) (db_otps s) = Some r"
    by (cases "find (otp_where email otp SIGNIN (now1 x)) (db_otps s)")
       (auto simp: signin_verify_def otp_findFirst_def)
  from find_SomeD [OF r] have rin: "r \<in> set (db_otps s)"
    and rk: "otp_email r = e" "otp_type r = t"
    by (simp_all add: otp_where_def b)
  have upd: "otp_update (otp_id r) (\<lambda>r. r\<lparr>otp_verified := True\<rparr>) (logged OtpFindFirst s) =
      (Inr (), logged OtpUpdate ((logged OtpFindFirst s)
         \<lparr>db_otps := map (\<lambda>r'. if otp_id r' = otp_id r then r'\<lparr>otp_verified := True\<rparr> else r')
                        (db_otps s)\<rparr>))"
    using otp_update_found [of r "logged OtpFindFirst s" "\<lambda>r. r\<lparr>otp_verified := True\<rparr>"] rin
    by simp
  from ok b tr r obtain user where user: "otp_user r s = Some user"
    by (cases "otp_user r s")
       (simp_all add: signin_verify_def otp_findFirst_def split_beta split: sum.split_asm)
  from ok b tr r user have small: "\<not> 5 \<le> otp_attempts r"
    by (cases "5 \<le> otp_attempts r") (simp_all add: signin_verify_def otp_findFirst_def)
  have "db_otps (snd (signin_verify x body s))
          = map (\<lambda>r'. if otp_id r' = otp_id r then r'\<lparr>otp_verified := True\<rparr> else r') (db_otps s)"
    using b tr r user small
    by (simp add: signin_verify_def otp_findFirst_def upd Let_def split_beta split: sum.split)
  moreover from uniq have "distinct (map otp_key (db_otps s))" by (simp add: otp_unique_def)
  ultimately show ?thesis
    using marked_spent [of "db_otps s" r e t "\<lambda>r. r\<lparr>otp_verified := True\<rparr>" c] rin rk
    by (simp add: spent_def)
qed

lemma signup_verify_ok_spent:
  assumes uniq: "otp_unique s" and key: "key_of SIGNUP body = Some (e, t, c)"
    and ok: "status (fst (signup_verify x body s)) = 200"
  shows "spent e t c (snd (signup_verify x body s))"
proof -
  from key obtain f email otp where b: "destructure body = Some f" "f ''email'' = Some (JStr email)"
    "f ''otp'' = Some (JStr otp)" "e = normalize email" "t = SIGNUP" "c = trim otp"
    by (rule key_ofD)
  from ok b have tr: "email \<noteq> []" "otp \<noteq> []"
    by (auto simp: signup_verify_def split: if_splits)
  from ok b tr obtain r where r: "find (otp_where email otp SIGNUP (now1 x)) (db_otps s) = Some r"
    by (cases "find (otp_where email otp SIGNUP (now1 x)) (db_otps s)")
       (auto simp: signup_verify_def otp_findFirst_def)
  from find_SomeD [OF r] have rin: "r \<in> set (db_otps s)"
    and rk: "otp_email r = e" "otp_type r = t"
    by (simp_all add: otp_where_def b)
  from ok b tr r have small: "\<not> 5 \<le> otp_attempts r"
    by (auto simp: signup_verify_def otp_findFirst_def)
  from ok b tr r small obtain sd where sd: "otp_signupData r = Some sd"
    by (cases "otp_signupData r") (auto simp: signup_verify_def otp_findFirst_def)
  let ?T = "transaction (signup_verify_tx x sd (otp_id r)) (logged OtpFindFirst s)"
  from ok b tr r small sd obtain u where u: "fst ?T = Inr u"
    by (cases "fst ?T") (auto simp: signup_verify_def otp_findFirst_def split_beta)
  from transaction_all_or_nothing [of x sd "otp_id r" "logged OtpFindFirst s" _ u] u
  have "both_written u (otp_id r) (logged OtpFindFirst s) (snd ?T)" by simp
  then have "db_otps (snd ?T) =
      map (\<lambda>r'. if otp_id r' = otp_id r
                then r'\<lparr>otp_verified := True, otp_userId := Some (user_id u)\<rparr> else r') (db_otps s)"
    by (simp add: both_written_def)
  then have "db_otps (snd (signup_verify x body s)) =
      map (\<lambda>r'. if otp_id r' = otp_id r
                then r'\<lparr>otp_verified := True, otp_userId := Some (user_id u)\<rparr> else r') (db_otps s)"
    using b tr r small sd u
    by (simp add: signup_verify_def otp_findFirst_def Let_def split_beta split: sum.split)
  moreover from uniq have "distinct (map otp_key (db_otps s))" by (simp add: otp_unique_def)
  ultimately show ?thesis
    using marked_spent [of "db_otps s" r e t
        "\<lambda>r. r\<lparr>otp_verified := True, otp_userId := Some (user_id u)\<rparr>" c] rin rk
    by (simp add: spent_def)
qed

text \<open>
  C6 (as amended): in a state with at most one code per e-mail and type, once a
  verification request is answered 200, every later verification request for the same
  normalised e-mail, type and trimmed code is answered 400 and writes nothing to the
  users, codes and sessions tables, after any sequence of requests among which no
  issuing request for that e-mail and type draws the same code again: the lookup only
  matches rows that are not verified and no route resets the flag.
\<close>

theorem otp_single_use:
  assumes uniq: "otp_unique s"
    and key: "verify_key q = Some (e, t, c)"
    and ok: "status (fst (api q x s)) = 200"
    and again: "verify_key q' = Some (e, t, c)"
    and quiet: "list_all (\<lambda>qx. \<not> reissues e t c qx) reqs"
  shows "status (fst (api q' x' (run reqs (snd (api q x s))))) = 400
       \<and> db_users (snd (api q' x' (run reqs (snd (api q x s)))))
           = db_users (run reqs (snd (api q x s)))
       \<and> db_otps (snd (api q' x' (run reqs (snd (api q x s)))))
           = db_otps (run reqs (snd (api q x s)))
       \<and> db_sessions (snd (api q' x' (run reqs (snd (api q x s)))))
           = db_sessions (run reqs (snd (api q x s)))"
proof -
  have "spent e t c (snd (api q x s))"
  proof (cases q)
    case (PostSignupVerify body)
    with key ok uniq show ?thesis by (simp add: signup_verify_ok_spent)
  next
    case (PostSigninVerify body)
    with key ok uniq show ?thesis by (simp add: signin_verify_ok_spent)
  qed (use key in simp_all)
  then have "spent e t c (run reqs (snd (api q x s)))"
    using quiet by (rule run_spent)
  from spent_rejected [OF this again] show ?thesis .
qed


lemma ann_signs_in:
  "fst (signin_verify ext0 (verify_body ''ann@x.io'' ''482913'') db1)
     = Authenticated ''Signed in successfully'' (view_of ann) ''jwt-u1.1000''"
  "db_users (snd (signin_verify ext0 (verify_body ''ann@x.io'' ''482913'') db1)) = [ann, bob]"
  "db_otps (snd (signin_verify ext0 (verify_body ''ann@x.io'' ''482913'') db1))
     = [ann_otp\<lparr>otp_verified := True\<rparr>, cat_otp]"
  "map session_token (db_sessions (snd (signin_verify ext0 (verify_body ''ann@x.io'' ''482913'') db1)))
     = [''jwt-u1'', ''jwt-u2'', ''jwt-u1.1000'']"
  "map session_id (db_sessions (snd (signin_verify ext0 (verify_body ''ann@x.io'' ''482913'') db1)))
     = [''ses1'', ''ses2'', ''id-b'']"
  by (simp_all add: signin_verify_def otp_where_def otp_user_def new_session_def
        generateToken_def Let_def orm_defs strings world)

text \<open>
  C6 as stated fails: Ann verifies the sign-in code \<open>482913\<close>, asks for a new code, the
  draw is \<open>482913\<close> again, and the same verification request succeeds a second time.
\<close>

theorem reissued_code_counterexample:
  "verify_key (PostSigninVerify (verify_body ''ann@x.io'' ''482913''))
     = Some (''ann@x.io'', SIGNIN, ''482913'')
   \<and> status (fst (api (PostSigninVerify (verify_body ''ann@x.io'' ''482913'')) ext0 db1)) = 200
   \<and> fst (api (PostSignin (Some (JObj [(''email'', JStr ''ann@x.io'')])))
             (ext0\<lparr>new_id := ''id-c''\<rparr>)
             (snd (api (PostSigninVerify (verify_body ''ann@x.io'' ''482913'')) ext0 db1)))
       = OtpSent ''OTP sent to your email'' ''ann@x.io''
   \<and> status (fst (api (PostSigninVerify (verify_body ''ann@x.io'' ''482913''))
                     (ext0\<lparr>jwt_sign := (\<lambda>u. ''jwt-'' @ u @ ''.2000''), new_session_id := ''id-d''\<rparr>)
                     (run [(PostSignin (Some (JObj [(''email'', JStr ''ann@x.io'')])),
                            ext0\<lparr>new_id := ''id-c''\<rparr>)]
                        (snd (api (PostSigninVerify (verify_body ''ann@x.io'' ''482913'')) ext0 db1)))))
       = 200"
proof -
  define A where "A = snd (signin_verify ext0 (verify_body ''ann@x.io'' ''482913'') db1)"
  note A = ann_signs_in(2-5) [folded A_def]
  define B where "B = snd (signin (ext0\<lparr>new_id := ''id-c''\<rparr>)
                             (Some (JObj [(''email'', JStr ''ann@x.io'')])) A)"
  have key: "verify_key (PostSigninVerify (verify_body ''ann@x.io'' ''482913''))
     = Some (''ann@x.io'', SIGNIN, ''482913'')"
    by (simp add: key_of_def verify_body_def strings)
  have sent: "fst (signin (ext0\<lparr>new_id := ''id-c''\<rparr>) (Some (JObj [(''email'', JStr ''ann@x.io'')])) A)
      = OtpSent ''OTP sent to your email'' ''ann@x.io''"
    by (simp add: signin_def signin_with_def Let_def orm_defs A strings
          ext0_def ann_def bob_def ann_otp_def cat_otp_def)
  have B: "db_users B = [ann, bob]"
    "db_otps B = [cat_otp, ann_otp\<lparr>otp_id := ''id-c'', otp_expiresAt := 601001\<rparr>]"
    "db_sessions B = db_sessions A"
    unfolding B_def
    by (simp_all add: signin_def signin_with_def Let_def orm_defs A strings generateOTP_def
          toString_def digits.simps digit_char_def
          ext0_def ann_def bob_def ann_otp_def cat_otp_def)
  have img: "session_id ` set (db_sessions A) = set [''ses1'', ''ses2'', ''id-b'']"
    "session_token ` set (db_sessions A) = set [''jwt-u1'', ''jwt-u2'', ''jwt-u1.1000'']"
    by (simp_all only: A(3,4) [symmetric] set_map)
  have again: "status (fst (signin_verify
        (ext0\<lparr>jwt_sign := (\<lambda>u. ''jwt-'' @ u @ ''.2000''), new_session_id := ''id-d''\<rparr>)
        (verify_body ''ann@x.io'' ''482913'') B)) = 200"
    by (simp add: signin_verify_def otp_where_def otp_user_def new_session_def
          generateToken_def Let_def orm_defs A B img strings verify_body_def
          ext0_def ann_def bob_def ann_otp_def cat_otp_def)
  from key sent again ann_signs_in(1) show ?thesis
    by (simp add: A_def B_def)
qed


theorem otp_single_use_witness:
  "status (fst (api (PostSigninVerify (verify_body ''ann@x.io'' ''482913'')) ext0 db1)) = 200
   \<and> status (fst (api (PostSigninVerify (verify_body '' Ann@x.io'' ''482913 ''))
                     (ext0\<lparr>jwt_sign := (\<lambda>u. ''jwt-'' @ u @ ''.2000''), new_session_id := ''id-d''\<rparr>)
                     (run [(PostSignin (Some (JObj [(''email'', JStr ''ann@x.io'')])),
                            ext0\<lparr>new_id := ''id-c'', random_draw := 135790\<rparr>),
                           (GetHealth, ext0)]
                        (snd (api (PostSigninVerify (verify_body ''ann@x.io'' ''482913'')) ext0 db1)))))
       = 400"
proof -
  have uniq: "otp_unique db1"
    by (simp add: otp_unique_def otp_key_def world)
  have key: "verify_key (PostSigninVerify (verify_body ''ann@x.io'' ''482913''))
     = Some (''ann@x.io'', SIGNIN, ''482913'')"
    by (simp add: key_of_def verify_body_def strings)
  have key': "verify_key (PostSigninVerify (verify_body '' Ann@x.io'' ''482913 ''))
     = Some (''ann@x.io'', SIGNIN, ''482913'')"
    by (simp add: key_of_def verify_body_def strings)
  have ok: "status (fst (api (PostSigninVerify (verify_body ''ann@x.io'' ''482913'')) ext0 db1)) = 200"
    by (simp add: ann_signs_in(1))
  have quiet: "list_all (\<lambda>qx. \<not> reissues ''ann@x.io'' SIGNIN ''482913'' qx)
      [(PostSignin (Some (JObj [(''email'', JStr ''ann@x.io'')])),
        ext0\<lparr>new_id := ''id-c'', random_draw := 135790\<rparr>), (GetHealth, ext0)]"
    by (simp add: email_of_def generateOTP_def toString_def digits.simps digit_char_def
          strings ext0_def)
  from otp_single_use [OF uniq key ok key' quiet] ok show ?thesis by simp
qed


end
